theory Spec2Isabelle
  imports Main "HOL-Library.AList"
begin

section \<open>JavaScript string primitives\<close>

text \<open>
  A JavaScript string is modelled as a \<open>char list\<close>: one \<open>char\<close> per UTF-16 code
  unit, for the code units 0..255 (Latin-1). All functions below are the restrictions of
  the JavaScript built-ins to that range.

  \<open>String.prototype.trim\<close> removes the white space and line terminators of ECMAScript;
  those below 256 are TAB, LF, VT, FF, CR, SPACE and NBSP.
\<close>

definition isWhitespace :: "char \<Rightarrow> bool" where
  "isWhitespace c =
     (c = CHR 0x09 \<or> c = CHR 0x0A \<or> c = CHR 0x0B \<or> c = CHR 0x0C \<or> c = CHR 0x0D
      \<or> c = CHR 0x20 \<or> c = CHR 0xA0)"

definition trimStart :: "string \<Rightarrow> string" where
  "trimStart s = dropWhile isWhitespace s"

definition trimEnd :: "string \<Rightarrow> string" where
  "trimEnd s = rev (dropWhile isWhitespace (rev s))"

definition trim :: "string \<Rightarrow> string" where
  "trim s = trimEnd (trimStart s)"

text \<open>
  \<open>toLowerCase\<close> on Latin-1: A-Z and the letters 0xC0..0xDE other than the
  multiplication sign 0xD7 gain bit 5. \<open>toUpperCase\<close>: a-z and 0xE0..0xFE other than
  the division sign 0xF7 lose bit 5. JavaScript maps the three remaining lower-case
  Latin-1 letters (0xB5, 0xDF, 0xFF) to strings outside ASCII or to \<open>SS\<close>; the program
  uses upper-cased strings only in comparisons with the ASCII words DIRECT, RESELLER,
  PUBLISHER, INTERMEDIARY and BOTH and on ASCII matches of the variable names, where
  leaving those three characters unchanged gives the same outcome.
\<close>

definition toLowerChar :: "char \<Rightarrow> char" where
  "toLowerChar c =
     (let n = (of_char c :: nat) in
      if (65 \<le> n \<and> n \<le> 90) \<or> (192 \<le> n \<and> n \<le> 222 \<and> n \<noteq> 215)
      then (case c of Char b0 b1 b2 b3 b4 b5 b6 b7 \<Rightarrow> Char b0 b1 b2 b3 b4 True b6 b7)
      else c)"

definition toUpperChar :: "char \<Rightarrow> char" where
  "toUpperChar c =
     (let n = (of_char c :: nat) in
      if (97 \<le> n \<and> n \<le> 122) \<or> (224 \<le> n \<and> n \<le> 254 \<and> n \<noteq> 247)
      then (case c of Char b0 b1 b2 b3 b4 b5 b6 b7 \<Rightarrow> Char b0 b1 b2 b3 b4 False b6 b7)
      else c)"

definition toLowerCase :: "string \<Rightarrow> string" where
  "toLowerCase s = map toLowerChar s"

definition toUpperCase :: "string \<Rightarrow> string" where
  "toUpperCase s = map toUpperChar s"

text \<open>\<open>s.split(c)\<close> for a one-character separator: never empty, \<open>''.split(c) = ['']\<close>.\<close>

fun split :: "char \<Rightarrow> string \<Rightarrow> string list" where
  "split c [] = [[]]"
| "split c (x # xs) =
     (if x = c then [] # split c xs
      else (case split c xs of [] \<Rightarrow> [[x]] | y # ys \<Rightarrow> (x # y) # ys))"


definition startsWith :: "string \<Rightarrow> string \<Rightarrow> bool" where
  "startsWith s p = (take (length p) s = p)"

section \<open>Data model\<close>

datatype Severity = ERROR | WARNING | INFO

datatype Relationship = DIRECT | RESELLER

fun relationshipString :: "Relationship \<Rightarrow> string" where
  "relationshipString DIRECT = ''DIRECT''"
| "relationshipString RESELLER = ''RESELLER''"

text \<open>
  A thrown value (the "exception" of a \<open>throw\<close> or the reason of a rejected promise):
  a value whose \<open>message\<close> property is a string, as every \<open>Error\<close> is; any other
  value that is not null or undefined, whose \<open>message\<close> reads as undefined; or null or
  undefined itself, on which reading a property throws a \<open>TypeError\<close>.
\<close>

datatype js_error = Exception string | ThrownWithoutMessage | ThrownNullish

text \<open>\<open>error.message\<close>: the message, undefined (\<open>None\<close>), or a \<open>TypeError\<close>.\<close>

fun message :: "js_error \<Rightarrow> js_error + string option" where
  "message (Exception m) = Inr (Some m)"
| "message ThrownWithoutMessage = Inr None"
| "message ThrownNullish = Inl (Exception ''TypeError: cannot read properties of undefined'')"

text \<open>The constants of \<open>VALIDATION_KEYS\<close>.\<close>

definition MISSING_FIELDS :: string where "MISSING_FIELDS = ''missingFields''"
definition INVALID_FORMAT :: string where "INVALID_FORMAT = ''invalidFormat''"
definition INVALID_RELATIONSHIP :: string where "INVALID_RELATIONSHIP = ''invalidRelationship''"
definition INVALID_DOMAIN :: string where "INVALID_DOMAIN = ''invalidDomain''"
definition EMPTY_ACCOUNT_ID :: string where "EMPTY_ACCOUNT_ID = ''emptyAccountId''"
definition IMPLIMENTED :: string where "IMPLIMENTED = ''implimentedEntry''"
definition NO_SELLERS_JSON :: string where "NO_SELLERS_JSON = ''noSellersJson''"
definition DIRECT_ACCOUNT_ID_NOT_IN_SELLERS_JSON :: string where
  "DIRECT_ACCOUNT_ID_NOT_IN_SELLERS_JSON = ''directAccountIdNotInSellersJson''"
definition RESELLER_ACCOUNT_ID_NOT_IN_SELLERS_JSON :: string where
  "RESELLER_ACCOUNT_ID_NOT_IN_SELLERS_JSON = ''resellerAccountIdNotInSellersJson''"
definition DOMAIN_MISMATCH :: string where "DOMAIN_MISMATCH = ''domainMismatch''"
definition DIRECT_NOT_PUBLISHER :: string where "DIRECT_NOT_PUBLISHER = ''directNotPublisher''"
definition SELLER_ID_NOT_UNIQUE :: string where "SELLER_ID_NOT_UNIQUE = ''sellerIdNotUnique''"
definition RESELLER_NOT_INTERMEDIARY :: string where
  "RESELLER_NOT_INTERMEDIARY = ''resellerNotIntermediary''"
definition SELLERS_JSON_VALIDATION_ERROR :: string where
  "SELLERS_JSON_VALIDATION_ERROR = ''sellersJsonValidationError''"
definition EMPTY_FILE :: string where "EMPTY_FILE = ''emptyFile''"
definition INVALID_CHARACTERS :: string where "INVALID_CHARACTERS = ''invalidCharacters''"

text \<open>
  \<open>Seller\<close> / \<open>SellersJsonSellerRecord\<close>. An optional field that is absent is \<open>None\<close>.
\<close>

record Seller =
  seller_id :: string
  name :: "string option"
  seller_domain :: "string option"
  seller_type :: "string option"
  is_confidential :: "int option"

text \<open>
  \<open>CrossCheckValidationResult\<close>. \<open>null\<close> is \<open>None\<close>. The TypeScript interface declares
  \<open>directAccountIdInSellersJson\<close> as a plain boolean; it is given the tri-state type of
  its siblings here so that ``is null'' can be said of it. \<open>sellerData\<close> is absent or
  null (\<open>None\<close>) or the matched seller.
\<close>

record CrossCheckValidationResult =
  hasSellerJson :: bool
  directAccountIdInSellersJson :: "bool option"
  directDomainMatchesSellerJsonEntry :: "bool option"
  directEntryHasPublisherType :: "bool option"
  directSellerIdIsUnique :: "bool option"
  resellerAccountIdInSellersJson :: "bool option"
  resellerDomainMatchesSellerJsonEntry :: "bool option"
  resellerEntryHasIntermediaryType :: "bool option"
  resellerSellerIdIsUnique :: "bool option"
  sellerData :: "Seller option"

text \<open>
  A warning: key, parameters (placeholder name to value, in insertion order), severity.
  A parameter value is a string, or \<open>undefined\<close> (\<open>None\<close>).
\<close>

type_synonym params = "(string \<times> string option) list"

record Warning =
  key :: string
  params :: params
  warning_severity :: Severity

record ParsedAdsTxtRecord =
  domain :: string
  account_id :: string
  account_type :: string
  certification_authority_id :: "string option"
  relationship :: Relationship
  line_number :: int
  raw_line :: string
  is_valid :: bool
  error :: "string option"
  has_warning :: "bool option"
  warning :: "string option"
  validation_key :: "string option"
  severity :: "Severity option"
  warning_params :: "params option"
  all_warnings :: "Warning list option"
  validation_error :: "string option"
  is_variable :: "bool option"
  duplicate_domain :: "string option"
  validation_results :: "CrossCheckValidationResult option"

text \<open>
  \<open>ParsedAdsTxtVariable\<close>, with the fields the parser sets. \<open>variable_type\<close> is the
  upper-case variable name.
\<close>

record ParsedAdsTxtVariable =
  variable_type :: string
  var_value :: string
  var_line_number :: int
  var_raw_line :: string
  var_is_variable :: bool
  var_is_valid :: bool

datatype ParsedAdsTxtEntry = Record ParsedAdsTxtRecord | Variable ParsedAdsTxtVariable

fun isAdsTxtRecord :: "ParsedAdsTxtEntry \<Rightarrow> bool" where
  "isAdsTxtRecord (Record r) = True"
| "isAdsTxtRecord (Variable v) = False"

fun isAdsTxtVariable :: "ParsedAdsTxtEntry \<Rightarrow> bool" where
  "isAdsTxtVariable (Variable v) = var_is_variable v"
| "isAdsTxtVariable (Record r) = False"


text \<open>The records and the variables of an entry list (\<open>filter\<close> with a type guard).\<close>

fun recordsOf :: "ParsedAdsTxtEntry list \<Rightarrow> ParsedAdsTxtRecord list" where
  "recordsOf [] = []"
| "recordsOf (Record r # es) = r # recordsOf es"
| "recordsOf (Variable v # es) = recordsOf es"

fun variablesOf :: "ParsedAdsTxtEntry list \<Rightarrow> ParsedAdsTxtVariable list" where
  "variablesOf [] = []"
| "variablesOf (Variable v # es) = (if var_is_variable v then v # variablesOf es else variablesOf es)"
| "variablesOf (Record r # es) = variablesOf es"

text \<open>
  The public-suffix library \<open>psl\<close> is not part of the repository; it is a parameter.
  \<open>psl_isValid d\<close> is \<open>psl.isValid(d)\<close>; \<open>psl_parse d\<close> is the \<open>domain\<close> field of
  \<open>psl.parse(d)\<close> (\<open>None\<close> when it is null or absent). Either call may throw.
\<close>

record psl =
  psl_isValid :: "string \<Rightarrow> js_error + bool"
  psl_parse :: "string \<Rightarrow> js_error + string option"

section \<open>The line parser\<close>

text \<open>
  The regular expression of \<open>parseAdsTxtVariable\<close>,
  \<^verbatim>\<open>/^(CONTACT|SUBDOMAIN|INVENTORYPARTNERDOMAIN|OWNERDOMAIN|MANAGERDOMAIN)=(.+)$/i\<close>:
  one of the names (ASCII case-insensitive), an equals sign, and at least one character
  up to the end of the string, none of them a line terminator (\<open>.\<close> does not match LF
  or CR). The result is the matched name in upper case and the second group.
\<close>

definition variableNames :: "string list" where
  "variableNames =
     [''CONTACT'', ''SUBDOMAIN'', ''INVENTORYPARTNERDOMAIN'', ''OWNERDOMAIN'', ''MANAGERDOMAIN'']"

definition isLineTerminator :: "char \<Rightarrow> bool" where
  "isLineTerminator c = (c = CHR 0x0A \<or> c = CHR 0x0D)"

fun variableMatch :: "string list \<Rightarrow> string \<Rightarrow> (string \<times> string) option" where
  "variableMatch [] t = None"
| "variableMatch (k # ks) t =
     (if toUpperCase (take (length k) t) = k then
        (case drop (length k) t of
           [] \<Rightarrow> variableMatch ks t
         | c # rest \<Rightarrow>
             if c = CHR ''='' \<and> rest \<noteq> [] \<and> \<not> list_ex isLineTerminator rest
             then Some (k, rest) else variableMatch ks t)
      else variableMatch ks t)"

definition parseAdsTxtVariable :: "string \<Rightarrow> int \<Rightarrow> ParsedAdsTxtVariable option" where
  "parseAdsTxtVariable line lineNumber =
     (let trimmedLine = trim line in
      case variableMatch variableNames trimmedLine of
        Some (variableType, v) \<Rightarrow>
          Some \<lparr>variable_type = variableType, var_value = trim v,
                var_line_number = lineNumber, var_raw_line = line,
                var_is_variable = True, var_is_valid = True\<rparr>
      | None \<Rightarrow> None)"

text \<open>
  \<open>hasInvalidCharacters\<close>: the two character classes, below 256, are the control
  characters 0x00-0x08, 0x0B, 0x0C, 0x0E-0x1F and 0x7F-0x9F.
\<close>

definition invalidCharacter :: "char \<Rightarrow> bool" where
  "invalidCharacter c =
     (let n = (of_char c :: nat) in
      n \<le> 8 \<or> n = 11 \<or> n = 12 \<or> (14 \<le> n \<and> n \<le> 31) \<or> (127 \<le> n \<and> n \<le> 159))"

definition hasInvalidCharacters :: "string \<Rightarrow> bool" where
  "hasInvalidCharacters line = list_ex invalidCharacter line"

text \<open>
  The argument of \<open>createInvalidRecord\<close> is a \<open>Partial<ParsedAdsTxtRecord>\<close>: every
  field may be absent. The object spread at the end of the literal puts each field that
  is present over its default.
\<close>

record PartialRecord =
  p_domain :: "string option"
  p_account_id :: "string option"
  p_account_type :: "string option"
  p_certification_authority_id :: "string option"
  p_relationship :: "Relationship option"
  p_line_number :: "int option"
  p_raw_line :: "string option"

definition emptyPartial :: PartialRecord where
  "emptyPartial =
     \<lparr>p_domain = None, p_account_id = None, p_account_type = None,
      p_certification_authority_id = None, p_relationship = None,
      p_line_number = None, p_raw_line = None\<rparr>"

definition orElse :: "'a option \<Rightarrow> 'a \<Rightarrow> 'a" where
  "orElse x d = (case x of None \<Rightarrow> d | Some v \<Rightarrow> v)"

definition createInvalidRecord :: "PartialRecord \<Rightarrow> string \<Rightarrow> Severity \<Rightarrow> ParsedAdsTxtRecord" where
  "createInvalidRecord partialRecord validationKey sev =
     \<lparr>domain = orElse (p_domain partialRecord) [],
      account_id = orElse (p_account_id partialRecord) [],
      account_type = orElse (p_account_type partialRecord) [],
      certification_authority_id = p_certification_authority_id partialRecord,
      relationship = orElse (p_relationship partialRecord) DIRECT,
      line_number = orElse (p_line_number partialRecord) 0,
      raw_line = orElse (p_raw_line partialRecord) [],
      is_valid = False,
      error = Some validationKey,
      has_warning = None,
      warning = None,
      validation_key = Some validationKey,
      severity = Some sev,
      warning_params = None,
      all_warnings = None,
      validation_error = None,
      is_variable = Some False,
      duplicate_domain = None,
      validation_results = None\<rparr>"

text \<open>
  \<open>processRelationship\<close> returns the relationship, the certification authority id and
  the error key, the last two possibly undefined.
\<close>

definition isRelationshipWord :: "string \<Rightarrow> bool" where
  "isRelationshipWord s = (s = ''DIRECT'' \<or> s = ''RESELLER'')"

definition asRelationship :: "string \<Rightarrow> Relationship" where
  "asRelationship s = (if s = ''RESELLER'' then RESELLER else DIRECT)"

definition processRelationship ::
  "string \<Rightarrow> string list \<Rightarrow> Relationship \<times> string option \<times> string option" where
  "processRelationship accountType rest =
     (let upperAccountType = toUpperCase accountType;
          relationship0 =
            (if isRelationshipWord upperAccountType then asRelationship upperAccountType
             else DIRECT)
      in
      if \<not> isRelationshipWord upperAccountType \<and>
         \<not> (case rest of [] \<Rightarrow> False | r0 # _ \<Rightarrow> isRelationshipWord (toUpperCase r0))
      then (relationship0, None, Some INVALID_RELATIONSHIP)
      else
        (case rest of
           [] \<Rightarrow> (relationship0, None, None)
         | r0 # rs \<Rightarrow>
             (let firstRest = toUpperCase r0 in
              if isRelationshipWord firstRest
              then (asRelationship firstRest,
                    (case rs of [] \<Rightarrow> None | r1 # _ \<Rightarrow> Some r1), None)
              else (relationship0, Some r0, None))))"

text \<open>
  The record part of \<open>parseAdsTxtLine\<close>, from the split into fields on: \<open>trimmedLine\<close>
  is the line without its inline comment. \<open>psl.isValid\<close> may throw.
\<close>

definition nth_or_empty :: "string list \<Rightarrow> nat \<Rightarrow> string" where
  "nth_or_empty parts i = (if i < length parts then parts ! i else [])"

definition validRecord ::
  "string \<Rightarrow> string \<Rightarrow> string \<Rightarrow> string option \<Rightarrow> Relationship \<Rightarrow> int \<Rightarrow> string
   \<Rightarrow> ParsedAdsTxtRecord" where
  "validRecord d accountId accountType certAuthorityId rel lineNumber line =
     \<lparr>domain = d, account_id = accountId, account_type = accountType,
      certification_authority_id = certAuthorityId, relationship = rel,
      line_number = lineNumber, raw_line = line, is_valid = True,
      error = None, has_warning = None, warning = None, validation_key = None,
      severity = None, warning_params = None, all_warnings = None,
      validation_error = None, is_variable = None, duplicate_domain = None,
      validation_results = None\<rparr>"

definition parseRecordFields ::
  "psl \<Rightarrow> string \<Rightarrow> string \<Rightarrow> int \<Rightarrow> js_error + ParsedAdsTxtRecord" where
  "parseRecordFields lib trimmedLine line lineNumber =
     (let parts = map trim (split (CHR '','') trimmedLine) in
      if length parts < 3 then
        Inr (createInvalidRecord
               (emptyPartial\<lparr>p_domain := Some (nth_or_empty parts 0),
                              p_account_id := Some (nth_or_empty parts 1),
                              p_account_type := Some (nth_or_empty parts 2),
                              p_line_number := Some lineNumber,
                              p_raw_line := Some line\<rparr>)
               MISSING_FIELDS ERROR)
      else if length parts = 1 \<and> parts ! 0 = trimmedLine then
        Inr (createInvalidRecord
               (emptyPartial\<lparr>p_domain := Some (parts ! 0),
                              p_line_number := Some lineNumber,
                              p_raw_line := Some line\<rparr>)
               INVALID_FORMAT ERROR)
      else
        (let d = parts ! 0; accountId = parts ! 1; accountType = parts ! 2;
             rest = drop 3 parts
         in
         case processRelationship accountType rest of
           (rel, certAuthorityId, err) \<Rightarrow>
             (let partialRecord =
                    emptyPartial\<lparr>p_domain := Some d,
                                   p_account_id := Some accountId,
                                   p_account_type := Some accountType,
                                   p_certification_authority_id := certAuthorityId,
                                   p_relationship := Some rel,
                                   p_line_number := Some lineNumber,
                                   p_raw_line := Some line\<rparr>
              in
              case err of
                Some e \<Rightarrow> Inr (createInvalidRecord partialRecord e ERROR)
              | None \<Rightarrow>
                  (case psl_isValid lib d of
                     Inl ex \<Rightarrow> Inl ex
                   | Inr ok \<Rightarrow>
                       if \<not> ok
                       then Inr (createInvalidRecord partialRecord INVALID_DOMAIN ERROR)
                       else if accountId = []
                       then Inr (createInvalidRecord partialRecord EMPTY_ACCOUNT_ID ERROR)
                       else Inr (validRecord d accountId accountType certAuthorityId
                                   rel lineNumber line)))))"

text \<open>
  \<open>parseAdsTxtLine\<close>: \<open>Inr None\<close> is the result \<open>null\<close>. The variable is looked for
  in \<open>line\<close>, as the source does, not in \<open>trimmedLine\<close>.
\<close>

definition stripComment :: "string \<Rightarrow> string" where
  "stripComment trimmedLine =
     (if CHR ''#'' \<in> set trimmedLine
      then trim (takeWhile (\<lambda>c. c \<noteq> CHR ''#'') trimmedLine)
      else trimmedLine)"

definition parseAdsTxtLine ::
  "psl \<Rightarrow> string \<Rightarrow> int \<Rightarrow> js_error + ParsedAdsTxtEntry option" where
  "parseAdsTxtLine lib line lineNumber =
     (if hasInvalidCharacters line then
        Inr (Some (Record (createInvalidRecord
                             (emptyPartial\<lparr>p_line_number := Some lineNumber,
                                            p_raw_line := Some line\<rparr>)
                             INVALID_CHARACTERS ERROR)))
      else
        (let trimmedLine0 = trim line in
         if trimmedLine0 = [] \<or> startsWith trimmedLine0 ''#'' then Inr None
         else
           (let trimmedLine = stripComment trimmedLine0 in
            if trimmedLine = [] then Inr None
            else
              (case parseAdsTxtVariable line lineNumber of
                 Some variableRecord \<Rightarrow> Inr (Some (Variable variableRecord))
               | None \<Rightarrow>
                   (case parseRecordFields lib trimmedLine line lineNumber of
                      Inl ex \<Rightarrow> Inl ex
                    | Inr r \<Rightarrow> Inr (Some (Record r)))))))"

text \<open>
  \<open>parseAdsTxtContent\<close>. The lines are parsed in order, numbered from 1; an exception
  of \<open>psl.isValid\<close> ends the loop and leaves the function. \<open>psl.parse\<close> is called
  inside a \<open>try\<close>: when it throws, no default OWNERDOMAIN is added.
\<close>

fun parseLines :: "psl \<Rightarrow> string list \<Rightarrow> int \<Rightarrow> js_error + ParsedAdsTxtEntry list" where
  "parseLines lib [] index = Inr []"
| "parseLines lib (line # lines) index =
     (case parseAdsTxtLine lib line (index + 1) of
        Inl ex \<Rightarrow> Inl ex
      | Inr parsedEntry \<Rightarrow>
          (case parseLines lib lines (index + 1) of
             Inl ex \<Rightarrow> Inl ex
           | Inr entries \<Rightarrow>
               Inr ((case parsedEntry of None \<Rightarrow> [] | Some e \<Rightarrow> [e]) @ entries)))"

definition emptyFileRecord :: ParsedAdsTxtRecord where
  "emptyFileRecord =
     \<lparr>domain = [], account_id = [], account_type = [],
      certification_authority_id = None, relationship = DIRECT,
      line_number = 1, raw_line = [], is_valid = False,
      error = Some EMPTY_FILE, has_warning = None, warning = None,
      validation_key = Some EMPTY_FILE, severity = Some ERROR,
      warning_params = None, all_warnings = None, validation_error = None,
      is_variable = Some False, duplicate_domain = None, validation_results = None\<rparr>"

definition isOwnerDomain :: "ParsedAdsTxtEntry \<Rightarrow> bool" where
  "isOwnerDomain entry =
     (case entry of Variable v \<Rightarrow> var_is_variable v \<and> variable_type v = ''OWNERDOMAIN''
      | Record r \<Rightarrow> False)"

definition defaultOwnerDomain :: "string \<Rightarrow> ParsedAdsTxtVariable" where
  "defaultOwnerDomain rootDomain =
     \<lparr>variable_type = ''OWNERDOMAIN'', var_value = rootDomain, var_line_number = - 1,
      var_raw_line = ''OWNERDOMAIN='' @ rootDomain, var_is_variable = True,
      var_is_valid = True\<rparr>"

text \<open>The entries to append for a missing OWNERDOMAIN: none, or the default one.\<close>

definition defaultOwnerDomainEntries :: "psl \<Rightarrow> string \<Rightarrow> ParsedAdsTxtEntry list" where
  "defaultOwnerDomainEntries lib publisherDomain =
     (case psl_parse lib publisherDomain of
        Inl ex \<Rightarrow> []
      | Inr None \<Rightarrow> []
      | Inr (Some rootDomain) \<Rightarrow>
          if rootDomain \<noteq> [] then [Variable (defaultOwnerDomain rootDomain)] else [])"

definition parseAdsTxtContent ::
  "psl \<Rightarrow> string \<Rightarrow> string option \<Rightarrow> js_error + ParsedAdsTxtEntry list" where
  "parseAdsTxtContent lib content publisherDomain =
     (if content = [] \<or> length (trim content) = 0 then Inr [Record emptyFileRecord]
      else
        (case parseLines lib (split (CHR 0x0A) content) 0 of
           Inl ex \<Rightarrow> Inl ex
         | Inr entries \<Rightarrow>
             (case publisherDomain of
                None \<Rightarrow> Inr entries
              | Some pd \<Rightarrow>
                  if pd \<noteq> [] \<and> \<not> list_ex isOwnerDomain entries
                  then Inr (entries @ defaultOwnerDomainEntries lib pd)
                  else Inr entries)))"

section \<open>Warning records and the duplicate detector\<close>

text \<open>
  \<open>createWarningRecord\<close>: the record, the warning fields over it, and
  \<open>additionalProps\<close> over both. \<open>additionalProps\<close> is given as the update it makes.
\<close>

definition createWarningRecord ::
  "ParsedAdsTxtRecord \<Rightarrow> string \<Rightarrow> params \<Rightarrow> Severity
   \<Rightarrow> (ParsedAdsTxtRecord \<Rightarrow> ParsedAdsTxtRecord) \<Rightarrow> ParsedAdsTxtRecord" where
  "createWarningRecord record validationKey ps sev additionalProps =
     additionalProps
       (record\<lparr>is_valid := True,
               has_warning := Some True,
               warning := Some validationKey,
               validation_key := Some validationKey,
               severity := Some sev,
               warning_params := Some ps,
               is_variable := Some False\<rparr>)"

definition createDuplicateWarningRecord ::
  "ParsedAdsTxtRecord \<Rightarrow> string \<Rightarrow> string \<Rightarrow> Severity \<Rightarrow> ParsedAdsTxtRecord" where
  "createDuplicateWarningRecord record publisherDomain validationKey sev =
     createWarningRecord record validationKey [(''domain'', Some publisherDomain)] sev
       (\<lambda>r. r\<lparr>duplicate_domain := Some publisherDomain\<rparr>)"

definition createLookupKey :: "ParsedAdsTxtRecord \<Rightarrow> string" where
  "createLookupKey record =
     (let lowerDomain = trim (toLowerCase (domain record)) in
      lowerDomain @ ''|'' @ account_id record @ ''|'' @ relationshipString (relationship record))"

text \<open>
  A JavaScript \<open>Map\<close> is an association list in insertion order: \<open>set\<close> is
  \<open>AList.update\<close> (an existing key keeps its place), \<open>get\<close> is \<open>map_of\<close>, \<open>size\<close> is
  \<open>length\<close>.
\<close>

fun createExistingRecordsMap ::
  "ParsedAdsTxtRecord list \<Rightarrow> (string \<times> ParsedAdsTxtRecord) list
   \<Rightarrow> (string \<times> ParsedAdsTxtRecord) list" where
  "createExistingRecordsMap [] existingRecordMap = existingRecordMap"
| "createExistingRecordsMap (record # existingRecords) existingRecordMap =
     (if is_valid record then
        (let domainLower = trim (toLowerCase (domain record));
             k = domainLower @ ''|'' @ account_id record @ ''|''
                   @ relationshipString (relationship record)
         in createExistingRecordsMap existingRecords
              (AList.update k record existingRecordMap))
      else createExistingRecordsMap existingRecords existingRecordMap)"

definition findDuplicateRecords ::
  "ParsedAdsTxtRecord list \<Rightarrow> (string \<times> ParsedAdsTxtRecord) list \<Rightarrow> string
   \<Rightarrow> ParsedAdsTxtRecord list" where
  "findDuplicateRecords records existingRecordMap publisherDomain =
     map (\<lambda>record.
            if \<not> is_valid record then record
            else if map_of existingRecordMap (createLookupKey record) \<noteq> None
            then createDuplicateWarningRecord record publisherDomain IMPLIMENTED INFO
            else record)
         records"

definition checkForDuplicates ::
  "psl \<Rightarrow> string \<Rightarrow> ParsedAdsTxtRecord list \<Rightarrow> string option
   \<Rightarrow> js_error + ParsedAdsTxtRecord list" where
  "checkForDuplicates lib publisherDomain parsedRecords cachedAdsTxtContent =
     (case cachedAdsTxtContent of
        None \<Rightarrow> Inr parsedRecords
      | Some content \<Rightarrow>
          if content = [] then Inr parsedRecords
          else
            (case parseAdsTxtContent lib content None of
               Inl ex \<Rightarrow> Inl ex
             | Inr existingRecords \<Rightarrow>
                 (let recordEntries = recordsOf existingRecords;
                      existingRecordMap = createExistingRecordsMap recordEntries []
                  in Inr (findDuplicateRecords parsedRecords existingRecordMap
                            publisherDomain))))"

section \<open>The relationship validator\<close>

definition createInitialValidationResult :: CrossCheckValidationResult where
  "createInitialValidationResult =
     \<lparr>hasSellerJson = False,
      directAccountIdInSellersJson = Some False,
      directDomainMatchesSellerJsonEntry = None,
      directEntryHasPublisherType = None,
      directSellerIdIsUnique = None,
      resellerAccountIdInSellersJson = None,
      resellerDomainMatchesSellerJsonEntry = None,
      resellerEntryHasIntermediaryType = None,
      resellerSellerIdIsUnique = None,
      sellerData = None\<rparr>"

definition extractDomainsFromVariables :: "ParsedAdsTxtEntry list \<Rightarrow> string \<Rightarrow> string list" where
  "extractDomainsFromVariables parsedEntries variableType =
     map (\<lambda>entry.
            if variableType = ''MANAGERDOMAIN'' \<and> CHR '','' \<in> set (var_value entry)
            then (case split (CHR '','') (var_value entry) of
                    [] \<Rightarrow> []
                  | first # _ \<Rightarrow> trim (toLowerCase first))
            else trim (toLowerCase (var_value entry)))
         (filter (\<lambda>entry. variable_type entry = variableType) (variablesOf parsedEntries))"

text \<open>
  The comparison of a seller's domain with the declared OWNERDOMAIN and MANAGERDOMAIN
  values, or with the publisher domain when none is declared. The DIRECT and the
  RESELLER branch contain the same lines.
\<close>

definition sellerDomainMatches :: "string \<Rightarrow> string \<Rightarrow> ParsedAdsTxtEntry list \<Rightarrow> bool" where
  "sellerDomainMatches sellerDomain publisherDomain parsedEntries =
     (let ownerDomains = extractDomainsFromVariables parsedEntries ''OWNERDOMAIN'';
          managerDomains = extractDomainsFromVariables parsedEntries ''MANAGERDOMAIN'';
          sellerDomainLower = trim (toLowerCase sellerDomain);
          matchesOwnerDomain = list_ex (\<lambda>d. d = sellerDomainLower) ownerDomains;
          matchesManagerDomain = list_ex (\<lambda>d. d = sellerDomainLower) managerDomains
      in
      if length ownerDomains = 0 \<and> length managerDomains = 0
      then toLowerCase publisherDomain = sellerDomainLower
      else matchesOwnerDomain \<or> matchesManagerDomain)"

definition upperSellerType :: "Seller \<Rightarrow> string" where
  "upperSellerType matchingSeller =
     (case seller_type matchingSeller of None \<Rightarrow> [] | Some t \<Rightarrow> toUpperCase t)"

definition uniqueInCounts :: "(string \<times> nat) list \<Rightarrow> string \<Rightarrow> bool option" where
  "uniqueInCounts sellerIdCounts normalizedAccountId =
     (case map_of sellerIdCounts normalizedAccountId of
        Some count \<Rightarrow> Some (count = 1)
      | None \<Rightarrow> None)"

definition validateDirectRelationship ::
  "CrossCheckValidationResult \<Rightarrow> Seller option \<Rightarrow> string \<Rightarrow> string
   \<Rightarrow> (string \<times> nat) list \<Rightarrow> ParsedAdsTxtEntry list \<Rightarrow> CrossCheckValidationResult" where
  "validateDirectRelationship validationResult matchingSeller publisherDomain
       normalizedAccountId sellerIdCounts parsedEntries =
     (let vr = validationResult
                 \<lparr>resellerAccountIdInSellersJson := None,
                  resellerDomainMatchesSellerJsonEntry := None,
                  resellerEntryHasIntermediaryType := None,
                  resellerSellerIdIsUnique := None\<rparr>
      in
      case matchingSeller of
        Some s \<Rightarrow>
          vr\<lparr>directDomainMatchesSellerJsonEntry :=
                (case seller_domain s of
                   None \<Rightarrow> None
                 | Some sd \<Rightarrow>
                     if is_confidential s = Some 1 \<or> sd = [] then None
                     else Some (sellerDomainMatches sd publisherDomain parsedEntries)),
             directEntryHasPublisherType :=
                Some (upperSellerType s = ''PUBLISHER'' \<or> upperSellerType s = ''BOTH''),
             directSellerIdIsUnique := uniqueInCounts sellerIdCounts normalizedAccountId\<rparr>
      | None \<Rightarrow> vr\<lparr>directSellerIdIsUnique := None\<rparr>)"

definition validateResellerRelationship ::
  "CrossCheckValidationResult \<Rightarrow> Seller option \<Rightarrow> string \<Rightarrow> string
   \<Rightarrow> (string \<times> nat) list \<Rightarrow> ParsedAdsTxtEntry list \<Rightarrow> CrossCheckValidationResult" where
  "validateResellerRelationship validationResult matchingSeller publisherDomain
       normalizedAccountId sellerIdCounts parsedEntries =
     (let vr = validationResult
                 \<lparr>directEntryHasPublisherType := None,
                  directDomainMatchesSellerJsonEntry := None,
                  directSellerIdIsUnique := None,
                  resellerAccountIdInSellersJson := Some (matchingSeller \<noteq> None)\<rparr>
      in
      case matchingSeller of
        Some s \<Rightarrow>
          vr\<lparr>resellerDomainMatchesSellerJsonEntry :=
                (case seller_domain s of
                   None \<Rightarrow> None
                 | Some sd \<Rightarrow>
                     if is_confidential s = Some 1 \<or> sd = [] then None
                     else Some (sellerDomainMatches sd publisherDomain parsedEntries)),
             resellerEntryHasIntermediaryType :=
                Some (upperSellerType s = ''INTERMEDIARY'' \<or> upperSellerType s = ''BOTH''),
             resellerSellerIdIsUnique := uniqueInCounts sellerIdCounts normalizedAccountId\<rparr>
      | None \<Rightarrow>
          vr\<lparr>resellerEntryHasIntermediaryType := None,
             resellerSellerIdIsUnique := None\<rparr>)"

section \<open>The warning synthesizer\<close>

definition createWarning :: "string \<Rightarrow> params \<Rightarrow> Warning" where
  "createWarning validationKey ps =
     \<lparr>key = validationKey, params = ps, warning_severity = WARNING\<rparr>"

definition isTrue :: "bool option \<Rightarrow> bool" where
  "isTrue b = (b = Some True)"

definition sellerDomainOrUnknown :: "CrossCheckValidationResult \<Rightarrow> string" where
  "sellerDomainOrUnknown validationResult =
     (case sellerData validationResult of
        None \<Rightarrow> ''unknown''
      | Some s \<Rightarrow> (case seller_domain s of
                     None \<Rightarrow> ''unknown''
                   | Some d \<Rightarrow> if d = [] then ''unknown'' else d))"

definition sellerTypeOrUnknown :: "CrossCheckValidationResult \<Rightarrow> string" where
  "sellerTypeOrUnknown validationResult =
     (case sellerData validationResult of
        None \<Rightarrow> ''unknown''
      | Some s \<Rightarrow> (case seller_type s of
                     None \<Rightarrow> ''unknown''
                   | Some t \<Rightarrow> if t = [] then ''unknown'' else t))"

text \<open>
  The third conjunct group of the RESELLER domain-mismatch test: seller data with a
  non-empty seller type that is neither INTERMEDIARY nor BOTH.
\<close>

definition sellerTypeNotIntermediary :: "CrossCheckValidationResult \<Rightarrow> bool" where
  "sellerTypeNotIntermediary validationResult =
     (case sellerData validationResult of
        None \<Rightarrow> False
      | Some s \<Rightarrow> (case seller_type s of
                     None \<Rightarrow> False
                   | Some t \<Rightarrow> t \<noteq> [] \<and> toUpperCase t \<noteq> ''INTERMEDIARY''
                                \<and> toUpperCase t \<noteq> ''BOTH''))"

definition generateWarnings ::
  "ParsedAdsTxtRecord \<Rightarrow> CrossCheckValidationResult \<Rightarrow> string \<Rightarrow> Warning list" where
  "generateWarnings record validationResult publisherDomain =
     (if \<not> hasSellerJson validationResult then
        [createWarning NO_SELLERS_JSON [(''domain'', Some (domain record))]]
      else if \<not> isTrue (directAccountIdInSellersJson validationResult) then
        (if relationship record = DIRECT
         then [createWarning DIRECT_ACCOUNT_ID_NOT_IN_SELLERS_JSON
                 [(''domain'', Some (domain record)), (''account_id'', Some (account_id record))]]
         else [createWarning RESELLER_ACCOUNT_ID_NOT_IN_SELLERS_JSON
                 [(''domain'', Some (domain record)), (''account_id'', Some (account_id record))]])
      else
        (if relationship record = DIRECT
            \<and> directDomainMatchesSellerJsonEntry validationResult = Some False
         then [createWarning DOMAIN_MISMATCH
                 [(''domain'', Some (domain record)), (''publisher_domain'', Some publisherDomain),
                  (''seller_domain'', Some (sellerDomainOrUnknown validationResult))]]
         else [])
        @
        (if relationship record = RESELLER
            \<and> resellerDomainMatchesSellerJsonEntry validationResult = Some False
            \<and> sellerTypeNotIntermediary validationResult
         then [createWarning DOMAIN_MISMATCH
                 [(''domain'', Some (domain record)), (''publisher_domain'', Some publisherDomain),
                  (''seller_domain'', Some (sellerDomainOrUnknown validationResult))]]
         else [])
        @
        (if relationship record = DIRECT
            \<and> directEntryHasPublisherType validationResult = Some False
         then [createWarning DIRECT_NOT_PUBLISHER
                 [(''domain'', Some (domain record)), (''account_id'', Some (account_id record)),
                  (''seller_type'', Some (sellerTypeOrUnknown validationResult))]]
         else [])
        @
        (let hasDuplicateDirectSellerId =
               (relationship record = DIRECT
                \<and> isTrue (directAccountIdInSellersJson validationResult)
                \<and> directSellerIdIsUnique validationResult = Some False);
             hasDuplicateResellerSellerId =
               (relationship record = RESELLER
                \<and> isTrue (resellerAccountIdInSellersJson validationResult)
                \<and> resellerSellerIdIsUnique validationResult = Some False)
         in
         if hasDuplicateDirectSellerId \<or> hasDuplicateResellerSellerId
         then [createWarning SELLER_ID_NOT_UNIQUE
                 [(''domain'', Some (domain record)), (''account_id'', Some (account_id record))]]
         else [])
        @
        (if relationship record = RESELLER
            \<and> isTrue (directAccountIdInSellersJson validationResult)
            \<and> resellerEntryHasIntermediaryType validationResult = Some False
         then [createWarning RESELLER_NOT_INTERMEDIARY
                 [(''domain'', Some (domain record)), (''account_id'', Some (account_id record)),
                  (''seller_type'', Some (sellerTypeOrUnknown validationResult))]]
         else []))"

text \<open>
  The end of both \<open>validateSingleRecord\<close> functions: the record with its warnings and
  validation results attached.
\<close>

definition attachWarnings ::
  "ParsedAdsTxtRecord \<Rightarrow> Warning list \<Rightarrow> CrossCheckValidationResult \<Rightarrow> ParsedAdsTxtRecord" where
  "attachWarnings record warnings validationResult =
     (case warnings of
        w # _ \<Rightarrow>
          record\<lparr>has_warning := Some True,
                 warning := Some (key w),
                 warning_params := Some (params w),
                 validation_key := Some (key w),
                 severity := Some (warning_severity w),
                 all_warnings := Some warnings,
                 validation_results := Some validationResult\<rparr>
      | [] \<Rightarrow> record\<lparr>validation_results := Some validationResult\<rparr>)"

section \<open>Seller data access\<close>

text \<open>
  \<open>SellersJsonMetadata\<close>. The code asks how many own keys the object has
  (\<open>Object.keys\<close>), so a declared property is absent, present holding undefined, or
  present holding a value, and \<open>other_keys\<close> is the number of the object's further
  own keys.
\<close>

datatype 'a property = Absent | Undefined | Defined 'a

record SellersJsonMetadata =
  version :: "string property"
  contact_email :: "string property"
  contact_address :: "string property"
  seller_count :: "int property"
  identifiers :: "string list property"
  other_keys :: nat

definition emptyMetadata :: SellersJsonMetadata where
  "emptyMetadata =
     \<lparr>version = Absent, contact_email = Absent, contact_address = Absent,
      seller_count = Absent, identifiers = Absent, other_keys = 0\<rparr>"

text \<open>\<open>Object.keys(metadata).length\<close>.\<close>

definition present :: "'a property \<Rightarrow> nat" where
  "present x = (case x of Absent \<Rightarrow> 0 | Undefined \<Rightarrow> 1 | Defined v \<Rightarrow> 1)"

definition metadataKeys :: "SellersJsonMetadata \<Rightarrow> nat" where
  "metadataKeys m =
     present (version m) + present (contact_email m) + present (contact_address m)
     + present (seller_count m) + present (identifiers m) + other_keys m"

record SellerResult =
  sellerId :: string
  seller :: "Seller option"
  found :: bool

record BatchSellersResult =
  batch_domain :: string
  requested_count :: int
  found_count :: int
  results :: "SellerResult list"
  metadata :: SellersJsonMetadata

text \<open>
  The two collaborators. Of the provider, the code calls \<open>hasSellerJson\<close> and
  \<open>batchGetSellers\<close> only; each returns a value or throws (a rejected promise).
  The legacy function returns the whole sellers.json object, or null; of the object
  only \<open>sellers\<close> is read, which is an array (\<open>Some\<close>) or not.
\<close>

record SellersJsonProvider =
  provider_hasSellerJson :: "string \<Rightarrow> js_error + bool"
  batchGetSellers :: "string \<Rightarrow> string list \<Rightarrow> js_error + BatchSellersResult"

record SellersJson =
  sellers :: "Seller list option"

datatype SellerAccess =
    Provider SellersJsonProvider
  | GetSellersJson "string \<Rightarrow> js_error + SellersJson option"

section \<open>Validation of one record\<close>

definition validateSingleRecordOptimized ::
  "ParsedAdsTxtRecord \<Rightarrow> string \<Rightarrow> (string \<times> Seller) list \<Rightarrow> SellersJsonMetadata
   \<Rightarrow> ParsedAdsTxtEntry list \<Rightarrow> ParsedAdsTxtRecord" where
  "validateSingleRecordOptimized record publisherDomain sellersMap md allEntries =
     (let validationResult0 =
            createInitialValidationResult
              \<lparr>hasSellerJson := (length sellersMap > 0 \<or> metadataKeys md > 0)\<rparr>
      in
      if \<not> hasSellerJson validationResult0 then
        createWarningRecord record NO_SELLERS_JSON [(''domain'', Some (domain record))] WARNING
          (\<lambda>r. r\<lparr>validation_results := Some validationResult0\<rparr>)
      else
        (let normalizedAccountId = trim (account_id record);
             matchingSeller = map_of sellersMap normalizedAccountId;
             validationResult1 =
               validationResult0
                 \<lparr>sellerData := matchingSeller,
                  directAccountIdInSellersJson := Some (matchingSeller \<noteq> None)\<rparr>;
             sellerIdCounts =
               (case seller_count md of
                  Defined n \<Rightarrow>
                    if n > 0 then map (\<lambda>(sid, s). (sid, 1::nat)) sellersMap else []
                | _ \<Rightarrow> []);
             validationResult =
               (case relationship record of
                  DIRECT \<Rightarrow>
                    validateDirectRelationship validationResult1 matchingSeller
                      publisherDomain normalizedAccountId sellerIdCounts allEntries
                | RESELLER \<Rightarrow>
                    validateResellerRelationship validationResult1 matchingSeller
                      publisherDomain normalizedAccountId sellerIdCounts allEntries);
             warnings = generateWarnings record validationResult publisherDomain
         in attachWarnings record warnings validationResult))"

text \<open>
  The legacy path. \<open>getSellersJsonData\<close> returns the data with the updated validation
  result and cache; \<open>hasSellerJson\<close> is written on a cache miss only.
\<close>

type_synonym sellersJsonCache = "(string \<times> SellersJson option) list"

definition getSellersJsonData ::
  "string \<Rightarrow> sellersJsonCache \<Rightarrow> (string \<Rightarrow> js_error + SellersJson option)
   \<Rightarrow> CrossCheckValidationResult
   \<Rightarrow> js_error + (SellersJson option \<times> CrossCheckValidationResult \<times> sellersJsonCache)" where
  "getSellersJsonData adSystemDomain cache getSellersJson validationResult =
     (case map_of cache adSystemDomain of
        Some cached \<Rightarrow> Inr (cached, validationResult, cache)
      | None \<Rightarrow>
          (case getSellersJson adSystemDomain of
             Inl ex \<Rightarrow> Inl ex
           | Inr sellersJsonData \<Rightarrow>
               Inr (sellersJsonData,
                    validationResult\<lparr>hasSellerJson := (sellersJsonData \<noteq> None)\<rparr>,
                    AList.update adSystemDomain sellersJsonData cache)))"

fun countSellerIds :: "Seller list \<Rightarrow> (string \<times> nat) list \<Rightarrow> (string \<times> nat) list" where
  "countSellerIds [] sellerIdCounts = sellerIdCounts"
| "countSellerIds (s # ss) sellerIdCounts =
     (if seller_id s \<noteq> [] then
        (let currentId = trim (seller_id s) in
         countSellerIds ss
           (AList.update currentId
              ((case map_of sellerIdCounts currentId of None \<Rightarrow> 0 | Some n \<Rightarrow> n) + 1)
              sellerIdCounts))
      else countSellerIds ss sellerIdCounts)"

type_synonym domainSellerIdCounts = "(string \<times> (string \<times> nat) list) list"

definition getSellerIdCounts ::
  "string \<Rightarrow> domainSellerIdCounts \<Rightarrow> Seller list
   \<Rightarrow> (string \<times> nat) list \<times> domainSellerIdCounts" where
  "getSellerIdCounts adSystemDomain domainSellerIdCountsMap ss =
     (case map_of domainSellerIdCountsMap adSystemDomain of
        Some counts \<Rightarrow> (counts, domainSellerIdCountsMap)
      | None \<Rightarrow>
          (let sellerIdCounts = countSellerIds ss [] in
           (sellerIdCounts,
            AList.update adSystemDomain sellerIdCounts domainSellerIdCountsMap)))"

definition findMatchingSeller :: "Seller list \<Rightarrow> string \<Rightarrow> Seller option" where
  "findMatchingSeller ss normalizedAccountId =
     find (\<lambda>s. seller_id s \<noteq> [] \<and> trim (seller_id s) = normalizedAccountId) ss"

definition validateSingleRecord ::
  "ParsedAdsTxtRecord \<Rightarrow> string \<Rightarrow> sellersJsonCache \<Rightarrow> domainSellerIdCounts
   \<Rightarrow> (string \<Rightarrow> js_error + SellersJson option) \<Rightarrow> ParsedAdsTxtEntry list
   \<Rightarrow> js_error + (ParsedAdsTxtRecord \<times> sellersJsonCache \<times> domainSellerIdCounts)" where
  "validateSingleRecord record publisherDomain cache domainSellerIdCountsMap getSellersJson
       allEntries =
     (let adSystemDomain = toLowerCase (domain record) in
      case getSellersJsonData adSystemDomain cache getSellersJson
             createInitialValidationResult of
        Inl ex \<Rightarrow> Inl ex
      | Inr (sellersJsonData, validationResult0, cache') \<Rightarrow>
          (case (case sellersJsonData of None \<Rightarrow> None | Some d \<Rightarrow> sellers d) of
             None \<Rightarrow>
               Inr (createWarningRecord record NO_SELLERS_JSON
                      [(''domain'', Some (domain record))] WARNING
                      (\<lambda>r. r\<lparr>validation_results := Some validationResult0\<rparr>),
                    cache', domainSellerIdCountsMap)
           | Some ss \<Rightarrow>
               (case getSellerIdCounts adSystemDomain domainSellerIdCountsMap ss of
                  (sellerIdCounts, domainSellerIdCountsMap') \<Rightarrow>
                    (let normalizedAccountId = trim (account_id record);
                         matchingSeller = findMatchingSeller ss normalizedAccountId;
                         validationResult1 =
                           validationResult0
                             \<lparr>sellerData := matchingSeller,
                              directAccountIdInSellersJson := Some (matchingSeller \<noteq> None)\<rparr>;
                         validationResult =
                           (case relationship record of
                              DIRECT \<Rightarrow>
                                validateDirectRelationship validationResult1 matchingSeller
                                  publisherDomain normalizedAccountId sellerIdCounts allEntries
                            | RESELLER \<Rightarrow>
                                validateResellerRelationship validationResult1 matchingSeller
                                  publisherDomain normalizedAccountId sellerIdCounts allEntries);
                         warnings = generateWarnings record validationResult publisherDomain
                     in Inr (attachWarnings record warnings validationResult,
                             cache', domainSellerIdCountsMap')))))"

section \<open>The batch-provider path\<close>

text \<open>
  The first loop of \<open>validateWithOptimizedProvider\<close>: the seller ids of the valid
  records, by lower-cased domain, in the order the domains first occur.
\<close>

fun groupSellerIds ::
  "ParsedAdsTxtRecord list \<Rightarrow> (string \<times> string list) list \<Rightarrow> (string \<times> string list) list" where
  "groupSellerIds [] domainToSellerIds = domainToSellerIds"
| "groupSellerIds (record # records) domainToSellerIds =
     (if \<not> is_valid record then groupSellerIds records domainToSellerIds
      else
        (let d = toLowerCase (domain record);
             ids = (case map_of domainToSellerIds d of None \<Rightarrow> [] | Some xs \<Rightarrow> xs)
         in groupSellerIds records (AList.update d (ids @ [account_id record]) domainToSellerIds)))"

text \<open>
  The second loop, with its state: the two maps it fills and the calls made to the
  provider so far, oldest first.
\<close>

datatype ProviderCall = HasSellerJsonCall string | BatchGetSellersCall string "string list"

record FetchState =
  domainSellersMap :: "(string \<times> (string \<times> Seller) list) list"
  domainMetadataMap :: "(string \<times> SellersJsonMetadata) list"
  calls :: "ProviderCall list"

definition emptyFetchState :: FetchState where
  "emptyFetchState = \<lparr>domainSellersMap = [], domainMetadataMap = [], calls = []\<rparr>"

fun toSellersMap :: "SellerResult list \<Rightarrow> (string \<times> Seller) list \<Rightarrow> (string \<times> Seller) list" where
  "toSellersMap [] sellersMap = sellersMap"
| "toSellersMap (result # rs) sellersMap =
     (case seller result of
        Some s \<Rightarrow>
          if found result then toSellersMap rs (AList.update (sellerId result) s sellersMap)
          else toSellersMap rs sellersMap
      | None \<Rightarrow> toSellersMap rs sellersMap)"

definition setNoData :: "string \<Rightarrow> FetchState \<Rightarrow> FetchState" where
  "setNoData d st =
     st\<lparr>domainSellersMap := AList.update d [] (domainSellersMap st),
        domainMetadataMap := AList.update d emptyMetadata (domainMetadataMap st)\<rparr>"

definition fetchDomain :: "SellersJsonProvider \<Rightarrow> string \<Rightarrow> string list \<Rightarrow> FetchState \<Rightarrow> FetchState" where
  "fetchDomain provider d sellerIds st =
     (let st1 = st\<lparr>calls := calls st @ [HasSellerJsonCall d]\<rparr> in
      case provider_hasSellerJson provider d of
        Inl ex \<Rightarrow> setNoData d st1
      | Inr hasIt \<Rightarrow>
          if \<not> hasIt then setNoData d st1
          else
            (let st2 = st1\<lparr>calls := calls st1 @ [BatchGetSellersCall d sellerIds]\<rparr> in
             case batchGetSellers provider d sellerIds of
               Inl ex \<Rightarrow> setNoData d st2
             | Inr batchResult \<Rightarrow>
                 st2\<lparr>domainSellersMap :=
                        AList.update d (toSellersMap (results batchResult) [])
                          (domainSellersMap st2),
                     domainMetadataMap :=
                        AList.update d (metadata batchResult) (domainMetadataMap st2)\<rparr>))"

fun fetchSellers ::
  "SellersJsonProvider \<Rightarrow> (string \<times> string list) list \<Rightarrow> FetchState \<Rightarrow> FetchState" where
  "fetchSellers provider [] st = st"
| "fetchSellers provider ((d, sellerIds) # rest) st =
     fetchSellers provider rest (fetchDomain provider d sellerIds st)"

definition fetchAll :: "SellersJsonProvider \<Rightarrow> ParsedAdsTxtRecord list \<Rightarrow> FetchState" where
  "fetchAll provider records =
     fetchSellers provider (groupSellerIds records []) emptyFetchState"

definition validateWithOptimizedProvider ::
  "string \<Rightarrow> ParsedAdsTxtRecord list \<Rightarrow> SellersJsonProvider \<Rightarrow> ParsedAdsTxtEntry list
   \<Rightarrow> ParsedAdsTxtRecord list" where
  "validateWithOptimizedProvider publisherDomain records provider allEntries =
     (let st = fetchAll provider records in
      map (\<lambda>record.
             if \<not> is_valid record then record
             else
               (let d = toLowerCase (domain record);
                    sellersMap = (case map_of (domainSellersMap st) d of
                                    None \<Rightarrow> [] | Some m \<Rightarrow> m);
                    md = (case map_of (domainMetadataMap st) d of
                            None \<Rightarrow> emptyMetadata | Some m \<Rightarrow> m)
                in validateSingleRecordOptimized record publisherDomain sellersMap md
                     allEntries))
          records)"

section \<open>The legacy path\<close>

text \<open>
  \<open>validateAgainstSellersJson\<close> starts the validation of every record before it awaits
  any of them (\<open>Promise.all\<close> over \<open>records.map\<close>): each valid record reaches its call
  of \<open>getSellersJson\<close> while both caches are still empty, and the caches are written
  only afterwards, when the promises resolve. Every record is therefore validated from
  empty caches. \<open>getSellersJson\<close> is a function of the domain, so the seller-id counts
  a record would find in the shared map are the ones it computes itself.

  An exception in one record's validation is caught by the handler of that record,
  which returns the record with a warning built from \<open>error.message\<close>. Reading the
  message throws when the thrown value is null or undefined; the handler's own
  exception rejects the record's promise.
\<close>

definition validateRecordLegacy ::
  "string \<Rightarrow> (string \<Rightarrow> js_error + SellersJson option) \<Rightarrow> ParsedAdsTxtEntry list
   \<Rightarrow> ParsedAdsTxtRecord \<Rightarrow> js_error + ParsedAdsTxtRecord" where
  "validateRecordLegacy publisherDomain getSellersJson allEntries record =
     (if \<not> is_valid record then Inr record
      else
        (case validateSingleRecord record publisherDomain [] [] getSellersJson allEntries of
           Inr (validated, cache, counts) \<Rightarrow> Inr validated
         | Inl ex \<Rightarrow>
             (case message ex of
                Inl typeError \<Rightarrow> Inl typeError
              | Inr msg \<Rightarrow>
                  Inr (createWarningRecord record SELLERS_JSON_VALIDATION_ERROR
                         [(''message'', msg), (''domain'', Some (domain record))] WARNING
                         (\<lambda>r. r\<lparr>validation_error := msg\<rparr>)))))"

text \<open>
  \<open>Promise.all\<close>: the results in order, or the rejection of a promise that was
  rejected.
\<close>

fun promiseAll :: "(js_error + 'a) list \<Rightarrow> js_error + 'a list" where
  "promiseAll [] = Inr []"
| "promiseAll (Inl ex # ps) = Inl ex"
| "promiseAll (Inr x # ps) =
     (case promiseAll ps of Inl ex \<Rightarrow> Inl ex | Inr xs \<Rightarrow> Inr (x # xs))"

definition validateAgainstSellersJson ::
  "string \<Rightarrow> ParsedAdsTxtRecord list \<Rightarrow> (string \<Rightarrow> js_error + SellersJson option)
   \<Rightarrow> ParsedAdsTxtEntry list \<Rightarrow> js_error + ParsedAdsTxtRecord list" where
  "validateAgainstSellersJson publisherDomain records getSellersJson allEntries =
     promiseAll (map (validateRecordLegacy publisherDomain getSellersJson allEntries) records)"

section \<open>The cross-check orchestrator\<close>

definition validateAgainstSellersJsonOptimized ::
  "string \<Rightarrow> ParsedAdsTxtRecord list \<Rightarrow> SellerAccess \<Rightarrow> ParsedAdsTxtEntry list
   \<Rightarrow> js_error + ParsedAdsTxtRecord list" where
  "validateAgainstSellersJsonOptimized publisherDomain records access allEntries =
     (case access of
        Provider provider \<Rightarrow>
          Inr (validateWithOptimizedProvider publisherDomain records provider allEntries)
      | GetSellersJson getSellersJson \<Rightarrow>
          validateAgainstSellersJson publisherDomain records getSellersJson allEntries)"

text \<open>The body of the \<open>try\<close> block of \<open>crossCheckAdsTxtRecords\<close>.\<close>

definition crossCheckBody ::
  "psl \<Rightarrow> string \<Rightarrow> ParsedAdsTxtEntry list \<Rightarrow> string option \<Rightarrow> SellerAccess
   \<Rightarrow> js_error + ParsedAdsTxtEntry list" where
  "crossCheckBody lib publisherDomain parsedEntries cachedAdsTxtContent access =
     (let variableEntries = variablesOf parsedEntries;
          recordEntries = recordsOf parsedEntries
      in
      case checkForDuplicates lib publisherDomain recordEntries cachedAdsTxtContent of
        Inl ex \<Rightarrow> Inl ex
      | Inr resultRecords \<Rightarrow>
          (case validateAgainstSellersJsonOptimized publisherDomain resultRecords access
                  parsedEntries of
             Inl ex \<Rightarrow> Inl ex
           | Inr validatedRecords \<Rightarrow>
               Inr (map Variable variableEntries @ map Record validatedRecords)))"

text \<open>
  \<open>crossCheckAdsTxtRecords\<close>: \<open>Inl\<close> would be an exception that leaves the function.
  The \<open>catch\<close> logs the exception and returns the entries it was given.
\<close>

definition crossCheckAdsTxtRecords ::
  "psl \<Rightarrow> string option \<Rightarrow> ParsedAdsTxtEntry list \<Rightarrow> string option \<Rightarrow> SellerAccess
   \<Rightarrow> js_error + ParsedAdsTxtEntry list" where
  "crossCheckAdsTxtRecords lib publisherDomain parsedEntries cachedAdsTxtContent access =
     (case publisherDomain of
        None \<Rightarrow> Inr parsedEntries
      | Some pd \<Rightarrow>
          if pd = [] then Inr parsedEntries
          else
            (case crossCheckBody lib pd parsedEntries cachedAdsTxtContent access of
               Inr entries \<Rightarrow> Inr entries
             | Inl ex \<Rightarrow> Inr parsedEntries))"

section \<open>optimizeAdsTxt\<close>




text \<open>The state of the loop over the lines.\<close>

record OptimizeState =
  uniqueRecordMap :: "(string \<times> ParsedAdsTxtRecord) list"
  uniqueVariableMap :: "(string \<times> ParsedAdsTxtVariable) list"
  comments :: "(nat \<times> string) list"
  parsedEntries :: "ParsedAdsTxtEntry list"
  hasOwnerDomain :: bool













section \<open>Entries as the optimizer prints them\<close>




section \<open>Example data\<close>

text \<open>
  A stand-in for \<open>psl\<close> in the examples: a domain is valid when it has a dot and
  consists of lower-case letters, digits, dots and hyphens; \<open>parse\<close> returns a valid
  domain as it is. Neither call throws.
\<close>

definition domainCharacter :: "char \<Rightarrow> bool" where
  "domainCharacter c =
     (let n = (of_char c :: nat) in
      (97 \<le> n \<and> n \<le> 122) \<or> (48 \<le> n \<and> n \<le> 57) \<or> n = 45 \<or> n = 46)"

definition examplePsl :: psl where
  "examplePsl =
     \<lparr>psl_isValid = (\<lambda>d. Inr (CHR ''.'' \<in> set d \<and> list_all domainCharacter d)),
      psl_parse = (\<lambda>d. Inr (if CHR ''.'' \<in> set d \<and> list_all domainCharacter d
                               then Some d else None))\<rparr>"

text \<open>The record of the repository's validation test, and a seller for it.\<close>

definition testRecord :: ParsedAdsTxtRecord where
  "testRecord =
     validRecord ''openx.com'' ''540838151'' ''RESELLER'' (Some ''6a698e2ec38604c6'') RESELLER 1
       ''openx.com,540838151,RESELLER,6a698e2ec38604c6''"

definition directRecord :: ParsedAdsTxtRecord where
  "directRecord =
     validRecord ''example.com'' ''pub-1'' ''DIRECT'' None DIRECT 1 ''example.com, pub-1, DIRECT''"

definition confidentialSeller :: Seller where
  "confidentialSeller =
     \<lparr>seller_id = ''pub-1'', name = Some ''Publisher'', seller_domain = Some ''other.example'',
      seller_type = Some ''PUBLISHER'', is_confidential = Some 1\<rparr>"

definition testSeller :: Seller where
  "testSeller =
     \<lparr>seller_id = ''540838151'', name = Some ''Nikkei'', seller_domain = Some ''other.example'',
      seller_type = Some ''PUBLISHER'', is_confidential = None\<rparr>"

text \<open>A validation result with every field set, as a stale earlier computation would leave it.\<close>

definition staleResult :: CrossCheckValidationResult where
  "staleResult =
     \<lparr>hasSellerJson = False,
      directAccountIdInSellersJson = Some True,
      directDomainMatchesSellerJsonEntry = Some False,
      directEntryHasPublisherType = Some False,
      directSellerIdIsUnique = Some False,
      resellerAccountIdInSellersJson = Some True,
      resellerDomainMatchesSellerJsonEntry = Some False,
      resellerEntryHasIntermediaryType = Some False,
      resellerSellerIdIsUnique = Some False,
      sellerData = Some testSeller\<rparr>"

text \<open>
  What the fetch loop stores for one domain: the sellers found and the metadata of the
  batch result, or nothing when \<open>hasSellerJson\<close> is false or a call throws.
\<close>

definition fetchedSellers :: "SellersJsonProvider \<Rightarrow> string \<Rightarrow> string list \<Rightarrow> (string \<times> Seller) list" where
  "fetchedSellers p d ids =
     (case provider_hasSellerJson p d of
        Inr True \<Rightarrow> (case batchGetSellers p d ids of
                       Inr batchResult \<Rightarrow> toSellersMap (results batchResult) []
                     | Inl ex \<Rightarrow> [])
      | _ \<Rightarrow> [])"

definition fetchedMetadata :: "SellersJsonProvider \<Rightarrow> string \<Rightarrow> string list \<Rightarrow> SellersJsonMetadata" where
  "fetchedMetadata p d ids =
     (case provider_hasSellerJson p d of
        Inr True \<Rightarrow> (case batchGetSellers p d ids of
                       Inr batchResult \<Rightarrow> metadata batchResult
                     | Inl ex \<Rightarrow> emptyMetadata)
      | _ \<Rightarrow> emptyMetadata)"





definition failingProvider :: SellersJsonProvider where
  "failingProvider =
     \<lparr>provider_hasSellerJson =
        (\<lambda>d. if d = ''openx.com'' then Inl (Exception ''timeout'') else Inr True),
      batchGetSellers = (\<lambda>d ids. Inr \<lparr>batch_domain = d, requested_count = int (length ids),
          found_count = 1,
          results = [\<lparr>sellerId = ''pub-1'', seller = Some confidentialSeller, found = True\<rparr>],
          metadata = emptyMetadata\<lparr>seller_count := Defined 1\<rparr>\<rparr>)\<rparr>"

definition failingGetSellersJson :: "string \<Rightarrow> js_error + SellersJson option" where
  "failingGetSellersJson d =
     (if d = ''openx.com'' then Inl (Exception ''timeout'')
      else if d = ''example.com''
      then Inr (Some \<lparr>sellers = Some [confidentialSeller]\<rparr>)
      else Inr None)"

text \<open>
  The same provider and fetch function without the failure, and a fetch function whose
  promise for \<open>openx.com\<close> is rejected without a reason.
\<close>

definition workingProvider :: SellersJsonProvider where
  "workingProvider =
     \<lparr>provider_hasSellerJson = (\<lambda>d. Inr True),
      batchGetSellers = (\<lambda>d ids. Inr \<lparr>batch_domain = d, requested_count = int (length ids),
          found_count = 1,
          results = [\<lparr>sellerId = ''pub-1'', seller = Some confidentialSeller, found = True\<rparr>],
          metadata = emptyMetadata\<lparr>seller_count := Defined 1\<rparr>\<rparr>)\<rparr>"

definition workingGetSellersJson :: "string \<Rightarrow> js_error + SellersJson option" where
  "workingGetSellersJson d =
     (if d = ''openx.com'' then Inr (Some \<lparr>sellers = Some [testSeller]\<rparr>)
      else if d = ''example.com''
      then Inr (Some \<lparr>sellers = Some [confidentialSeller]\<rparr>)
      else Inr None)"


section \<open>The relationship validator and the warning synthesizer\<close>

text \<open>
  C3. When \<open>hasSellerJson\<close> is false the warning synthesizer returns exactly one
  warning, NO_SELLERS_JSON with the record's domain as its parameter, whatever the
  other fields of the validation result are.
\<close>

theorem generateWarnings_no_sellers_json:
  "\<not> hasSellerJson validationResult \<Longrightarrow>
   generateWarnings record validationResult publisherDomain =
     [\<lparr>key = NO_SELLERS_JSON, params = [(''domain'', Some (domain record))],
       warning_severity = WARNING\<rparr>]"
  by (simp add: generateWarnings_def createWarning_def)

theorem generateWarnings_no_sellers_json_witness:
  "\<not> hasSellerJson staleResult \<and>
   generateWarnings testRecord staleResult ''nikkei.com'' =
     [\<lparr>key = ''noSellersJson'', params = [(''domain'', Some ''openx.com'')],
       warning_severity = WARNING\<rparr>]"
proof -
  have h: "\<not> hasSellerJson staleResult"
    by (simp add: staleResult_def)
  show ?thesis
    using h generateWarnings_no_sellers_json [OF h, of testRecord "''nikkei.com''"]
    by (simp add: testRecord_def validRecord_def NO_SELLERS_JSON_def)
qed

text \<open>
  C6. For a DIRECT record whose matched seller is confidential (\<open>is_confidential\<close> is 1)
  or has no domain field, the validator sets \<open>directDomainMatchesSellerJsonEntry\<close> to
  null, and the warnings synthesized from its result contain no DOMAIN_MISMATCH,
  whatever the seller's domain, the publisher domain and the declared variables are.
\<close>

theorem confidential_seller_no_domain_mismatch:
  assumes "relationship record = DIRECT"
    and "is_confidential s = Some 1 \<or> seller_domain s = None"
  shows "directDomainMatchesSellerJsonEntry
           (validateDirectRelationship validationResult (Some s) publisherDomain
              normalizedAccountId sellerIdCounts allEntries) = None
         \<and> DOMAIN_MISMATCH \<notin>
             key ` set (generateWarnings record
                          (validateDirectRelationship validationResult (Some s) publisherDomain
                             normalizedAccountId sellerIdCounts allEntries)
                          publisherDomain)"
proof
  show "directDomainMatchesSellerJsonEntry
          (validateDirectRelationship validationResult (Some s) publisherDomain
             normalizedAccountId sellerIdCounts allEntries) = None"
    using assms(2) by (auto simp add: validateDirectRelationship_def split: option.splits)
  then show "DOMAIN_MISMATCH \<notin>
      key ` set (generateWarnings record
                   (validateDirectRelationship validationResult (Some s) publisherDomain
                      normalizedAccountId sellerIdCounts allEntries)
                   publisherDomain)"
    using assms(1)
    by (auto simp add: generateWarnings_def createWarning_def Let_def
        NO_SELLERS_JSON_def DOMAIN_MISMATCH_def DIRECT_ACCOUNT_ID_NOT_IN_SELLERS_JSON_def
        DIRECT_NOT_PUBLISHER_def SELLER_ID_NOT_UNIQUE_def)
qed

theorem confidential_seller_no_domain_mismatch_witness:
  "relationship directRecord = DIRECT
   \<and> is_confidential confidentialSeller = Some 1
   \<and> seller_domain confidentialSeller = Some ''other.example''
   \<and> directDomainMatchesSellerJsonEntry
        (validateDirectRelationship
           (createInitialValidationResult\<lparr>hasSellerJson := True,
              directAccountIdInSellersJson := Some True,
              sellerData := Some confidentialSeller\<rparr>)
           (Some confidentialSeller) ''publisher.example'' ''pub-1'' [(''pub-1'', 1)] []) = None
   \<and> DOMAIN_MISMATCH \<notin>
        key ` set (generateWarnings directRecord
                     (validateDirectRelationship
                        (createInitialValidationResult\<lparr>hasSellerJson := True,
                           directAccountIdInSellersJson := Some True,
                           sellerData := Some confidentialSeller\<rparr>)
                        (Some confidentialSeller) ''publisher.example'' ''pub-1''
                        [(''pub-1'', 1)] [])
                     ''publisher.example'')"
proof -
  have h1: "relationship directRecord = DIRECT"
    by (simp add: directRecord_def validRecord_def)
  have h2: "is_confidential confidentialSeller = Some 1 \<or> seller_domain confidentialSeller = None"
    by (simp add: confidentialSeller_def)
  show ?thesis
    using h1 confidential_seller_no_domain_mismatch [OF h1 h2]
    by (simp add: confidentialSeller_def)
qed

lemma relationship_branch_fields:
  "directDomainMatchesSellerJsonEntry (validateResellerRelationship vr ms pd a c es) = None"
  "directEntryHasPublisherType (validateResellerRelationship vr ms pd a c es) = None"
  "directSellerIdIsUnique (validateResellerRelationship vr ms pd a c es) = None"
  "directAccountIdInSellersJson (validateResellerRelationship vr ms pd a c es)
     = directAccountIdInSellersJson vr"
  "resellerAccountIdInSellersJson (validateDirectRelationship vr ms pd a c es) = None"
  "resellerDomainMatchesSellerJsonEntry (validateDirectRelationship vr ms pd a c es) = None"
  "resellerEntryHasIntermediaryType (validateDirectRelationship vr ms pd a c es) = None"
  "resellerSellerIdIsUnique (validateDirectRelationship vr ms pd a c es) = None"
  "directAccountIdInSellersJson (validateDirectRelationship vr ms pd a c es)
     = directAccountIdInSellersJson vr"
  by (simp_all add: validateResellerRelationship_def validateDirectRelationship_def Let_def
      split: option.splits)

lemma validation_results_attachWarnings:
  "validation_results (attachWarnings record warnings validationResult) = Some validationResult"
  by (simp add: attachWarnings_def split: list.splits)

text \<open>
  C2, as the code has it. Whatever the incoming validation result holds, the RESELLER
  branch leaves \<open>directDomainMatchesSellerJsonEntry\<close>, \<open>directEntryHasPublisherType\<close>
  and \<open>directSellerIdIsUnique\<close> null, and the DIRECT branch leaves all four
  RESELLER-specific fields null. \<open>directAccountIdInSellersJson\<close> is not reset by
  either branch: it keeps the value the caller stored. So in the validation result of
  a record validated on either path, the three fields are null for a RESELLER record,
  the four RESELLER-specific fields are null for a DIRECT record, and
  \<open>directAccountIdInSellersJson\<close> is, for both relationships, a boolean: whether
  seller data was available and a seller matched the record's trimmed account id.
\<close>

theorem relationship_irrelevant_fields_reset:
  "(directDomainMatchesSellerJsonEntry
      (validateResellerRelationship vr matchingSeller pd accountId counts es) = None
    \<and> directEntryHasPublisherType
        (validateResellerRelationship vr matchingSeller pd accountId counts es) = None
    \<and> directSellerIdIsUnique
        (validateResellerRelationship vr matchingSeller pd accountId counts es) = None
    \<and> directAccountIdInSellersJson
        (validateResellerRelationship vr matchingSeller pd accountId counts es)
        = directAccountIdInSellersJson vr
    \<and> resellerAccountIdInSellersJson
        (validateDirectRelationship vr matchingSeller pd accountId counts es) = None
    \<and> resellerDomainMatchesSellerJsonEntry
        (validateDirectRelationship vr matchingSeller pd accountId counts es) = None
    \<and> resellerEntryHasIntermediaryType
        (validateDirectRelationship vr matchingSeller pd accountId counts es) = None
    \<and> resellerSellerIdIsUnique
        (validateDirectRelationship vr matchingSeller pd accountId counts es) = None
    \<and> directAccountIdInSellersJson
        (validateDirectRelationship vr matchingSeller pd accountId counts es)
        = directAccountIdInSellersJson vr)
   \<and> (\<exists>result.
         validation_results (validateSingleRecordOptimized record pd sellersMap md es)
           = Some result
         \<and> directAccountIdInSellersJson result
             = Some ((0 < length sellersMap \<or> 0 < metadataKeys md)
                     \<and> map_of sellersMap (trim (account_id record)) \<noteq> None)
         \<and> (relationship record = RESELLER \<longrightarrow>
               directDomainMatchesSellerJsonEntry result = None
               \<and> directEntryHasPublisherType result = None
               \<and> directSellerIdIsUnique result = None)
         \<and> (relationship record = DIRECT \<longrightarrow>
               resellerAccountIdInSellersJson result = None
               \<and> resellerDomainMatchesSellerJsonEntry result = None
               \<and> resellerEntryHasIntermediaryType result = None
               \<and> resellerSellerIdIsUnique result = None))
   \<and> (getSellersJsonData (toLowerCase (domain record)) cache getSellersJson
         createInitialValidationResult = Inr (sellersJsonData, vr0, cache')
       \<longrightarrow> (\<exists>validated countsMap' result.
              validateSingleRecord record pd cache countsMap getSellersJson es
                = Inr (validated, cache', countsMap')
              \<and> validation_results validated = Some result
              \<and> directAccountIdInSellersJson result
                  = Some (case (case sellersJsonData of None \<Rightarrow> None | Some d \<Rightarrow> sellers d) of
                            None \<Rightarrow> False
                          | Some ss \<Rightarrow>
                              findMatchingSeller ss (trim (account_id record)) \<noteq> None)
              \<and> (relationship record = RESELLER \<longrightarrow>
                    directDomainMatchesSellerJsonEntry result = None
                    \<and> directEntryHasPublisherType result = None
                    \<and> directSellerIdIsUnique result = None)
              \<and> (relationship record = DIRECT \<longrightarrow>
                    resellerAccountIdInSellersJson result = None
                    \<and> resellerDomainMatchesSellerJsonEntry result = None
                    \<and> resellerEntryHasIntermediaryType result = None
                    \<and> resellerSellerIdIsUnique result = None)))"
proof -
  have branches: "directDomainMatchesSellerJsonEntry
      (validateResellerRelationship vr matchingSeller pd accountId counts es) = None
    \<and> directEntryHasPublisherType
        (validateResellerRelationship vr matchingSeller pd accountId counts es) = None
    \<and> directSellerIdIsUnique
        (validateResellerRelationship vr matchingSeller pd accountId counts es) = None
    \<and> directAccountIdInSellersJson
        (validateResellerRelationship vr matchingSeller pd accountId counts es)
        = directAccountIdInSellersJson vr
    \<and> resellerAccountIdInSellersJson
        (validateDirectRelationship vr matchingSeller pd accountId counts es) = None
    \<and> resellerDomainMatchesSellerJsonEntry
        (validateDirectRelationship vr matchingSeller pd accountId counts es) = None
    \<and> resellerEntryHasIntermediaryType
        (validateDirectRelationship vr matchingSeller pd accountId counts es) = None
    \<and> resellerSellerIdIsUnique
        (validateDirectRelationship vr matchingSeller pd accountId counts es) = None
    \<and> directAccountIdInSellersJson
        (validateDirectRelationship vr matchingSeller pd accountId counts es)
        = directAccountIdInSellersJson vr"
    by (simp add: relationship_branch_fields)
  have optimized: "\<exists>result.
         validation_results (validateSingleRecordOptimized record pd sellersMap md es)
           = Some result
         \<and> directAccountIdInSellersJson result
             = Some ((0 < length sellersMap \<or> 0 < metadataKeys md)
                     \<and> map_of sellersMap (trim (account_id record)) \<noteq> None)
         \<and> (relationship record = RESELLER \<longrightarrow>
               directDomainMatchesSellerJsonEntry result = None
               \<and> directEntryHasPublisherType result = None
               \<and> directSellerIdIsUnique result = None)
         \<and> (relationship record = DIRECT \<longrightarrow>
               resellerAccountIdInSellersJson result = None
               \<and> resellerDomainMatchesSellerJsonEntry result = None
               \<and> resellerEntryHasIntermediaryType result = None
               \<and> resellerSellerIdIsUnique result = None)"
  proof (cases "0 < length sellersMap \<or> 0 < metadataKeys md")
    case False
    then show ?thesis
      by (simp add: validateSingleRecordOptimized_def createWarningRecord_def
          createInitialValidationResult_def)
  next
    case True
    then show ?thesis
      by (cases "relationship record")
        (simp_all add: validateSingleRecordOptimized_def Let_def validation_results_attachWarnings
          relationship_branch_fields createInitialValidationResult_def)
  qed
  have legacy: "getSellersJsonData (toLowerCase (domain record)) cache getSellersJson
         createInitialValidationResult = Inr (sellersJsonData, vr0, cache')
       \<longrightarrow> (\<exists>validated countsMap' result.
              validateSingleRecord record pd cache countsMap getSellersJson es
                = Inr (validated, cache', countsMap')
              \<and> validation_results validated = Some result
              \<and> directAccountIdInSellersJson result
                  = Some (case (case sellersJsonData of None \<Rightarrow> None | Some d \<Rightarrow> sellers d) of
                            None \<Rightarrow> False
                          | Some ss \<Rightarrow>
                              findMatchingSeller ss (trim (account_id record)) \<noteq> None)
              \<and> (relationship record = RESELLER \<longrightarrow>
                    directDomainMatchesSellerJsonEntry result = None
                    \<and> directEntryHasPublisherType result = None
                    \<and> directSellerIdIsUnique result = None)
              \<and> (relationship record = DIRECT \<longrightarrow>
                    resellerAccountIdInSellersJson result = None
                    \<and> resellerDomainMatchesSellerJsonEntry result = None
                    \<and> resellerEntryHasIntermediaryType result = None
                    \<and> resellerSellerIdIsUnique result = None))"
  proof
    assume g: "getSellersJsonData (toLowerCase (domain record)) cache getSellersJson
         createInitialValidationResult = Inr (sellersJsonData, vr0, cache')"
    have vr0: "directAccountIdInSellersJson vr0 = Some False
        \<and> directDomainMatchesSellerJsonEntry vr0 = None
        \<and> directEntryHasPublisherType vr0 = None
        \<and> directSellerIdIsUnique vr0 = None
        \<and> resellerAccountIdInSellersJson vr0 = None
        \<and> resellerDomainMatchesSellerJsonEntry vr0 = None
        \<and> resellerEntryHasIntermediaryType vr0 = None
        \<and> resellerSellerIdIsUnique vr0 = None"
      using g
      by (auto simp add: getSellersJsonData_def createInitialValidationResult_def
          split: option.splits sum.splits)
    show "\<exists>validated countsMap' result.
              validateSingleRecord record pd cache countsMap getSellersJson es
                = Inr (validated, cache', countsMap')
              \<and> validation_results validated = Some result
              \<and> directAccountIdInSellersJson result
                  = Some (case (case sellersJsonData of None \<Rightarrow> None | Some d \<Rightarrow> sellers d) of
                            None \<Rightarrow> False
                          | Some ss \<Rightarrow>
                              findMatchingSeller ss (trim (account_id record)) \<noteq> None)
              \<and> (relationship record = RESELLER \<longrightarrow>
                    directDomainMatchesSellerJsonEntry result = None
                    \<and> directEntryHasPublisherType result = None
                    \<and> directSellerIdIsUnique result = None)
              \<and> (relationship record = DIRECT \<longrightarrow>
                    resellerAccountIdInSellersJson result = None
                    \<and> resellerDomainMatchesSellerJsonEntry result = None
                    \<and> resellerEntryHasIntermediaryType result = None
                    \<and> resellerSellerIdIsUnique result = None)"
    proof (cases "case sellersJsonData of None \<Rightarrow> None | Some d \<Rightarrow> sellers d")
      case None
      then show ?thesis
        using g vr0
        by (simp add: validateSingleRecord_def Let_def createWarningRecord_def)
    next
      case (Some ss)
      obtain sellerIdCounts countsMap' where
        c: "getSellerIdCounts (toLowerCase (domain record)) countsMap ss
              = (sellerIdCounts, countsMap')"
        by (cases "getSellerIdCounts (toLowerCase (domain record)) countsMap ss")
      show ?thesis
        using g Some c vr0
        by (cases "relationship record")
          (simp_all add: validateSingleRecord_def Let_def validation_results_attachWarnings
            relationship_branch_fields)
    qed
  qed
  show ?thesis
    by (rule conjI [OF branches conjI [OF optimized legacy]])
qed

theorem relationship_irrelevant_fields_reset_witness:
  "relationship testRecord = RESELLER
   \<and> relationship directRecord = DIRECT
   \<and> directSellerIdIsUnique staleResult = Some False
   \<and> directSellerIdIsUnique
       (validateResellerRelationship staleResult (Some testSeller) ''nikkei.com'' ''540838151''
          [(''540838151'', 2)] []) = None
   \<and> resellerSellerIdIsUnique staleResult = Some False
   \<and> resellerSellerIdIsUnique
       (validateDirectRelationship staleResult (Some testSeller) ''nikkei.com'' ''540838151''
          [(''540838151'', 2)] []) = None
   \<and> (\<exists>result.
         validation_results
           (validateSingleRecordOptimized testRecord ''nikkei.com''
              [(''540838151'', testSeller)] emptyMetadata []) = Some result
         \<and> directAccountIdInSellersJson result = Some True
         \<and> directDomainMatchesSellerJsonEntry result = None
         \<and> directEntryHasPublisherType result = None
         \<and> directSellerIdIsUnique result = None)
   \<and> (\<exists>validated countsMap' result.
         validateSingleRecord directRecord ''nikkei.com'' [] [] workingGetSellersJson []
           = Inr (validated,
                  [(''example.com'', Some \<lparr>sellers = Some [confidentialSeller]\<rparr>)], countsMap')
         \<and> validation_results validated = Some result
         \<and> directAccountIdInSellersJson result = Some True
         \<and> resellerAccountIdInSellersJson result = None
         \<and> resellerDomainMatchesSellerJsonEntry result = None
         \<and> resellerEntryHasIntermediaryType result = None
         \<and> resellerSellerIdIsUnique result = None)"
proof -
  have r1: "relationship testRecord = RESELLER" by (simp add: testRecord_def validRecord_def)
  have r2: "relationship directRecord = DIRECT" by (simp add: directRecord_def validRecord_def)
  have s1: "directSellerIdIsUnique staleResult = Some False" by (simp add: staleResult_def)
  have s2: "resellerSellerIdIsUnique staleResult = Some False" by (simp add: staleResult_def)
  have m: "((0::nat) < length [(''540838151'', testSeller)] \<or> 0 < metadataKeys emptyMetadata)
      \<and> map_of [(''540838151'', testSeller)] (trim (account_id testRecord)) \<noteq> None"
    by code_simp
  have g: "getSellersJsonData (toLowerCase (domain directRecord)) [] workingGetSellersJson
         createInitialValidationResult
       = Inr (Some \<lparr>sellers = Some [confidentialSeller]\<rparr>,
              createInitialValidationResult\<lparr>hasSellerJson := True\<rparr>,
              [(''example.com'', Some \<lparr>sellers = Some [confidentialSeller]\<rparr>)])"
    by code_simp
  have f: "findMatchingSeller [confidentialSeller] (trim (account_id directRecord)) \<noteq> None"
    by code_simp
  note inst1 = relationship_irrelevant_fields_reset
      [of staleResult "Some testSeller" "''nikkei.com''" "''540838151''"
        "[(''540838151'', 2)]" "[]" testRecord "[(''540838151'', testSeller)]" emptyMetadata
        "[]" workingGetSellersJson "Some \<lparr>sellers = Some [confidentialSeller]\<rparr>"
        "createInitialValidationResult\<lparr>hasSellerJson := True\<rparr>"
        "[(''example.com'', Some \<lparr>sellers = Some [confidentialSeller]\<rparr>)]" "[]"]
  note inst2 = relationship_irrelevant_fields_reset
      [of staleResult "Some testSeller" "''nikkei.com''" "''540838151''"
        "[(''540838151'', 2)]" "[]" directRecord "[(''540838151'', testSeller)]" emptyMetadata
        "[]" workingGetSellersJson "Some \<lparr>sellers = Some [confidentialSeller]\<rparr>"
        "createInitialValidationResult\<lparr>hasSellerJson := True\<rparr>"
        "[(''example.com'', Some \<lparr>sellers = Some [confidentialSeller]\<rparr>)]" "[]"]
  have a: "directSellerIdIsUnique
       (validateResellerRelationship staleResult (Some testSeller) ''nikkei.com'' ''540838151''
          [(''540838151'', 2)] []) = None"
    and b: "resellerSellerIdIsUnique
       (validateDirectRelationship staleResult (Some testSeller) ''nikkei.com'' ''540838151''
          [(''540838151'', 2)] []) = None"
    using inst1 by blast+
  have c: "\<exists>result.
         validation_results
           (validateSingleRecordOptimized testRecord ''nikkei.com''
              [(''540838151'', testSeller)] emptyMetadata []) = Some result
         \<and> directAccountIdInSellersJson result = Some True
         \<and> directDomainMatchesSellerJsonEntry result = None
         \<and> directEntryHasPublisherType result = None
         \<and> directSellerIdIsUnique result = None"
    using inst1 r1 m by auto
  have d: "\<exists>validated countsMap' result.
         validateSingleRecord directRecord ''nikkei.com'' [] [] workingGetSellersJson []
           = Inr (validated,
                  [(''example.com'', Some \<lparr>sellers = Some [confidentialSeller]\<rparr>)], countsMap')
         \<and> validation_results validated = Some result
         \<and> directAccountIdInSellersJson result = Some True
         \<and> resellerAccountIdInSellersJson result = None
         \<and> resellerDomainMatchesSellerJsonEntry result = None
         \<and> resellerEntryHasIntermediaryType result = None
         \<and> resellerSellerIdIsUnique result = None"
    using inst2 r2 g f by auto
  show ?thesis using r1 r2 s1 s2 a b c d by blast
qed

text \<open>
  C2 as stated fails for \<open>directAccountIdInSellersJson\<close>: the RESELLER record of the
  test, validated against a seller map that holds its account id, gets the value true
  in that field, not null.
\<close>

theorem direct_account_id_not_null_for_reseller:
  "relationship testRecord = RESELLER
   \<and> map_option directAccountIdInSellersJson
        (validation_results
           (validateSingleRecordOptimized testRecord ''nikkei.com''
              [(''540838151'', testSeller)] emptyMetadata []))
      = Some (Some True)"
  by (simp add: validateSingleRecordOptimized_def testRecord_def validRecord_def Let_def
      testSeller_def createInitialValidationResult_def trim_def trimStart_def trimEnd_def
      isWhitespace_def validateResellerRelationship_def attachWarnings_def
      split: list.splits)

section \<open>The batch-provider path: one fetch per domain\<close>

lemma map_of_update: "map_of (AList.update k v al) k' = (if k' = k then Some v else map_of al k')"
  by (simp add: update_conv')

lemma groupSellerIds_distinct:
  "distinct (map fst m) \<Longrightarrow> distinct (map fst (groupSellerIds records m))"
  by (induction records arbitrary: m) (simp_all add: Let_def distinct_update)

lemma groupSellerIds_map_of:
  "map_of (groupSellerIds records m) d =
     (let ids = map account_id (filter (\<lambda>r. is_valid r \<and> toLowerCase (domain r) = d) records)
      in if ids = [] then map_of m d
         else Some ((case map_of m d of None \<Rightarrow> [] | Some xs \<Rightarrow> xs) @ ids))"
proof (induction records arbitrary: m)
  case Nil
  then show ?case by simp
next
  case (Cons r records)
  show ?case
  proof (cases "is_valid r")
    case False
    then show ?thesis using Cons.IH [of m] by simp
  next
    case True
    then show ?thesis
      using Cons.IH [of "AList.update (toLowerCase (domain r))
          ((case map_of m (toLowerCase (domain r)) of None \<Rightarrow> [] | Some xs \<Rightarrow> xs) @ [account_id r]) m"]
      by (auto simp add: Let_def map_of_update split: option.splits)
  qed
qed

lemma group_of_valid_record:
  assumes "i < length records" and "is_valid (records ! i)"
  shows "(toLowerCase (domain (records ! i)),
          map account_id (filter (\<lambda>r. is_valid r \<and> toLowerCase (domain r) = toLowerCase (domain (records ! i))) records))
         \<in> set (groupSellerIds records [])"
proof -
  let ?d = "toLowerCase (domain (records ! i))"
  let ?ids = "map account_id (filter (\<lambda>r. is_valid r \<and> toLowerCase (domain r) = ?d) records)"
  have "records ! i \<in> set (filter (\<lambda>r. is_valid r \<and> toLowerCase (domain r) = ?d) records)"
    using assms by simp
  then have "?ids \<noteq> []" by (metis empty_iff list.map_disc_iff list.set(1))
  then have "map_of (groupSellerIds records []) ?d = Some ?ids"
    using groupSellerIds_map_of [of records "[]" ?d] by (simp add: Let_def)
  then show ?thesis by (rule map_of_SomeD)
qed

lemma fetchDomain_same:
  "map_of (domainSellersMap (fetchDomain p d ids st)) d
     = map_of (domainSellersMap (fetchDomain p d ids st')) d"
  "map_of (domainMetadataMap (fetchDomain p d ids st)) d
     = map_of (domainMetadataMap (fetchDomain p d ids st')) d"
  by (auto simp add: fetchDomain_def setNoData_def Let_def map_of_update split: sum.splits)

lemma fetchDomain_other:
  "d \<noteq> d' \<Longrightarrow> map_of (domainSellersMap (fetchDomain p d' ids st)) d = map_of (domainSellersMap st) d"
  "d \<noteq> d' \<Longrightarrow> map_of (domainMetadataMap (fetchDomain p d' ids st)) d = map_of (domainMetadataMap st) d"
  by (auto simp add: fetchDomain_def setNoData_def Let_def map_of_update split: sum.splits)

lemma fetchSellers_notin:
  "d \<notin> fst ` set groups \<Longrightarrow>
     map_of (domainSellersMap (fetchSellers p groups st)) d = map_of (domainSellersMap st) d \<and>
     map_of (domainMetadataMap (fetchSellers p groups st)) d = map_of (domainMetadataMap st) d"
  by (induction groups arbitrary: st) (auto simp add: fetchDomain_other)

lemma fetchSellers_in:
  "distinct (map fst groups) \<Longrightarrow> (d, ids) \<in> set groups \<Longrightarrow>
     map_of (domainSellersMap (fetchSellers p groups st)) d
       = map_of (domainSellersMap (fetchDomain p d ids emptyFetchState)) d \<and>
     map_of (domainMetadataMap (fetchSellers p groups st)) d
       = map_of (domainMetadataMap (fetchDomain p d ids emptyFetchState)) d"
proof (induction groups arbitrary: st)
  case Nil
  then show ?case by simp
next
  case (Cons g groups)
  obtain d' ids' where g: "g = (d', ids')" by (cases g)
  show ?case
  proof (cases "d = d'")
    case True
    with Cons.prems g have notin: "d \<notin> fst ` set groups" and "ids = ids'"
      by (auto simp add: rev_image_eqI)
    then show ?thesis
      using fetchSellers_notin [OF notin, of p "fetchDomain p d' ids' st"] True g
        fetchDomain_same [of p d ids st emptyFetchState]
      by simp
  next
    case False
    with Cons.prems g have "(d, ids) \<in> set groups" "distinct (map fst groups)" by auto
    then show ?thesis using Cons.IH [of "fetchDomain p d' ids' st"] g by simp
  qed
qed

lemma fetchDomain_stores:
  "map_of (domainSellersMap (fetchDomain p d ids st)) d = Some (fetchedSellers p d ids)"
  "map_of (domainMetadataMap (fetchDomain p d ids st)) d = Some (fetchedMetadata p d ids)"
  by (auto simp add: fetchDomain_def setNoData_def Let_def map_of_update fetchedSellers_def
      fetchedMetadata_def split: sum.splits bool.splits)

lemma validateWithOptimizedProvider_nth:
  assumes "i < length records" and "is_valid (records ! i)"
  shows "validateWithOptimizedProvider pd records p es ! i =
           validateSingleRecordOptimized (records ! i) pd
             (fetchedSellers p (toLowerCase (domain (records ! i)))
                (map account_id (filter (\<lambda>r. is_valid r \<and> toLowerCase (domain r) = toLowerCase (domain (records ! i))) records)))
             (fetchedMetadata p (toLowerCase (domain (records ! i)))
                (map account_id (filter (\<lambda>r. is_valid r \<and> toLowerCase (domain r) = toLowerCase (domain (records ! i))) records)))
             es"
proof -
  let ?d = "toLowerCase (domain (records ! i))"
  let ?ids = "map account_id (filter (\<lambda>r. is_valid r \<and> toLowerCase (domain r) = ?d) records)"
  have mem: "(?d, ?ids) \<in> set (groupSellerIds records [])"
    using assms by (rule group_of_valid_record)
  have dist: "distinct (map fst (groupSellerIds records []))"
    by (rule groupSellerIds_distinct) simp
  have "map_of (domainSellersMap (fetchAll p records)) ?d = Some (fetchedSellers p ?d ?ids)"
    and "map_of (domainMetadataMap (fetchAll p records)) ?d = Some (fetchedMetadata p ?d ?ids)"
    using fetchSellers_in [OF dist mem, of p emptyFetchState]
    by (simp_all add: fetchAll_def fetchDomain_stores)
  then show ?thesis
    using assms by (simp add: validateWithOptimizedProvider_def Let_def)
qed











section \<open>Exceptions of the collaborators\<close>

lemma promiseAll_Cons:
  "promiseAll (p # ps) =
     (case p of Inl ex \<Rightarrow> Inl ex
      | Inr x \<Rightarrow> (case promiseAll ps of Inl ex \<Rightarrow> Inl ex | Inr xs \<Rightarrow> Inr (x # xs)))"
  by (cases p) simp_all

lemma promiseAll_Inl:
  "promiseAll (map f xs) = Inl ex \<Longrightarrow> \<exists>x \<in> set xs. f x = Inl ex"
  by (induction xs) (auto simp add: promiseAll_Cons split: sum.splits)

lemma promiseAll_Inr:
  "promiseAll (map f xs) = Inr ys \<Longrightarrow>
     length ys = length xs \<and> (\<forall>i < length xs. f (xs ! i) = Inr (ys ! i))"
proof (induction xs arbitrary: ys)
  case Nil
  then show ?case by simp
next
  case (Cons x xs)
  then obtain y ys' where y: "f x = Inr y" "promiseAll (map f xs) = Inr ys'" "ys = y # ys'"
    by (auto simp add: promiseAll_Cons split: sum.splits)
  then show ?case using Cons.IH [of ys'] by (auto simp add: nth_Cons split: nat.splits)
qed

lemma promiseAll_total:
  "\<forall>x \<in> set xs. \<exists>y. f x = Inr y \<Longrightarrow> \<exists>ys. promiseAll (map f xs) = Inr ys"
  by (induction xs) (auto simp add: promiseAll_Cons)

lemma promiseAll_rejects:
  "x \<in> set xs \<Longrightarrow> f x = Inl ex \<Longrightarrow> \<exists>ex'. promiseAll (map f xs) = Inl ex'"
  by (induction xs) (auto simp add: promiseAll_Cons split: sum.splits)

lemma validateSingleRecord_Inl:
  "validateSingleRecord r pd [] [] g es = Inl ex \<longleftrightarrow> g (toLowerCase (domain r)) = Inl ex"
  by (auto simp add: validateSingleRecord_def getSellersJsonData_def Let_def
      split: sum.splits option.splits prod.splits)

lemma validateSingleRecord_cong:
  "g (toLowerCase (domain r)) = g' (toLowerCase (domain r)) \<Longrightarrow>
   validateSingleRecord r pd [] [] g es = validateSingleRecord r pd [] [] g' es"
  by (simp add: validateSingleRecord_def getSellersJsonData_def Let_def)

lemma message_Inl: "message ex = Inl te \<longleftrightarrow>
    ex = ThrownNullish \<and> te = Exception ''TypeError: cannot read properties of undefined''"
  by (cases ex) auto

lemma validateRecordLegacy_Inl:
  "(\<exists>ex. validateRecordLegacy pd g es r = Inl ex) \<longleftrightarrow>
     is_valid r \<and> g (toLowerCase (domain r)) = Inl ThrownNullish"
proof (cases "validateSingleRecord r pd [] [] g es")
  case (Inl ex)
  then have "g (toLowerCase (domain r)) = Inl ex" by (simp add: validateSingleRecord_Inl)
  then show ?thesis
    using Inl by (cases ex) (auto simp add: validateRecordLegacy_def)
next
  case (Inr v)
  then have "g (toLowerCase (domain r)) \<noteq> Inl ThrownNullish"
    using validateSingleRecord_Inl [of r pd g es ThrownNullish] by auto
  then show ?thesis
    using Inr by (auto simp add: validateRecordLegacy_def split: prod.splits)
qed

lemma validateRecordLegacy_cong:
  "g (toLowerCase (domain r)) = g' (toLowerCase (domain r)) \<Longrightarrow>
   validateRecordLegacy pd g es r = validateRecordLegacy pd g' es r"
  using validateSingleRecord_cong [of g r g' pd es]
  by (simp add: validateRecordLegacy_def)

lemma validateRecordLegacy_caught:
  assumes "is_valid r" and "g (toLowerCase (domain r)) = Inl ex" and "message ex = Inr msg"
  shows "validateRecordLegacy pd g es r =
     Inr (createWarningRecord r SELLERS_JSON_VALIDATION_ERROR
            [(''message'', msg), (''domain'', Some (domain r))] WARNING
            (\<lambda>r. r\<lparr>validation_error := msg\<rparr>))"
proof -
  have "validateSingleRecord r pd [] [] g es = Inl ex"
    using assms(2) by (simp add: validateSingleRecord_Inl)
  then show ?thesis using assms(1,3) by (simp add: validateRecordLegacy_def)
qed

lemma validateAgainstSellersJson_rejects_iff:
  "(\<exists>ex. validateAgainstSellersJson pd records g es = Inl ex) \<longleftrightarrow>
     (\<exists>r \<in> set records. is_valid r \<and> g (toLowerCase (domain r)) = Inl ThrownNullish)"
proof
  assume "\<exists>ex. validateAgainstSellersJson pd records g es = Inl ex"
  then obtain ex r where "r \<in> set records" "validateRecordLegacy pd g es r = Inl ex"
    using promiseAll_Inl [of "validateRecordLegacy pd g es" records]
    by (auto simp add: validateAgainstSellersJson_def)
  then show "\<exists>r \<in> set records. is_valid r \<and> g (toLowerCase (domain r)) = Inl ThrownNullish"
    using validateRecordLegacy_Inl [of pd g es r] by blast
next
  assume "\<exists>r \<in> set records. is_valid r \<and> g (toLowerCase (domain r)) = Inl ThrownNullish"
  then obtain r ex where "r \<in> set records" "validateRecordLegacy pd g es r = Inl ex"
    using validateRecordLegacy_Inl [of pd g es] by blast
  then show "\<exists>ex. validateAgainstSellersJson pd records g es = Inl ex"
    using promiseAll_rejects [of r records "validateRecordLegacy pd g es" ex]
    by (simp add: validateAgainstSellersJson_def)
qed

lemma validateAgainstSellersJson_nth:
  assumes "validateAgainstSellersJson pd records g es = Inr validated" and "i < length records"
  shows "length validated = length records"
    and "validateRecordLegacy pd g es (records ! i) = Inr (validated ! i)"
  using assms promiseAll_Inr [of "validateRecordLegacy pd g es" records validated]
  by (simp_all add: validateAgainstSellersJson_def)

text \<open>
  C5, as the code has it. For every valid record, with \<open>d\<close> its lower-cased domain:
  on the batch path an exception of \<open>hasSellerJson\<close> or \<open>batchGetSellers\<close> for \<open>d\<close>
  leaves the empty seller map and empty metadata for \<open>d\<close>, so the record gets the
  NO_SELLERS_JSON warning with the initial validation result; on the legacy path an
  exception of the fetch function for \<open>d\<close> whose value is not null or undefined gives
  the record the SELLERS_JSON_VALIDATION_ERROR warning with the exception's message
  and no validation result. On both paths the validated record depends on the
  collaborator's answers for \<open>d\<close> only, so records of other domains are validated as
  if nothing had failed. The batch path never ends in an exception, and the legacy path
  does not when no fetch for the domain of a valid record throws null or undefined;
  then, whenever the duplicate detector returns, the cross-check returns the variables
  followed by the validated records.
\<close>

theorem fetch_exception_isolated:
  assumes "i < length records" and "is_valid (records ! i)"
  shows
    "(let r = records ! i;
          d = toLowerCase (domain r);
          ids = map account_id
                  (filter (\<lambda>r. is_valid r \<and> toLowerCase (domain r) = d) records)
      in
      (provider_hasSellerJson p d = Inl ex
         \<or> (provider_hasSellerJson p d = Inr True \<and> batchGetSellers p d ids = Inl ex)
       \<longrightarrow> validateWithOptimizedProvider pd records p es ! i =
             createWarningRecord r NO_SELLERS_JSON [(''domain'', Some (domain r))] WARNING
               (\<lambda>r. r\<lparr>validation_results := Some createInitialValidationResult\<rparr>))
      \<and> (provider_hasSellerJson p d = provider_hasSellerJson p' d
           \<and> batchGetSellers p d ids = batchGetSellers p' d ids
         \<longrightarrow> validateWithOptimizedProvider pd records p es ! i =
               validateWithOptimizedProvider pd records p' es ! i)
      \<and> (validateAgainstSellersJson pd records g es = Inr validated
           \<and> g d = Inl ex \<and> message ex = Inr msg
         \<longrightarrow> validated ! i =
               createWarningRecord r SELLERS_JSON_VALIDATION_ERROR
                 [(''message'', msg), (''domain'', Some (domain r))] WARNING
                 (\<lambda>r. r\<lparr>validation_error := msg\<rparr>))
      \<and> (validateAgainstSellersJson pd records g es = Inr validated
           \<and> validateAgainstSellersJson pd records g' es = Inr validated'
           \<and> g d = g' d
         \<longrightarrow> validated ! i = validated' ! i))
     \<and> validateAgainstSellersJsonOptimized pd records (Provider p) es =
         Inr (validateWithOptimizedProvider pd records p es)
     \<and> ((\<forall>r \<in> set records. is_valid r \<longrightarrow> g (toLowerCase (domain r)) \<noteq> Inl ThrownNullish)
        \<longrightarrow> (\<exists>validated.
               validateAgainstSellersJsonOptimized pd records (GetSellersJson g) es
                 = Inr validated))
     \<and> (pd \<noteq> [] \<and> checkForDuplicates lib pd (recordsOf entries) cached = Inr resultRecords
        \<longrightarrow> crossCheckAdsTxtRecords lib (Some pd) entries cached (Provider p) =
              Inr (map Variable (variablesOf entries)
                   @ map Record (validateWithOptimizedProvider pd resultRecords p entries)))
     \<and> (pd \<noteq> [] \<and> checkForDuplicates lib pd (recordsOf entries) cached = Inr resultRecords
          \<and> (\<forall>r \<in> set resultRecords.
                 is_valid r \<longrightarrow> g (toLowerCase (domain r)) \<noteq> Inl ThrownNullish)
        \<longrightarrow> (\<exists>validated.
               validateAgainstSellersJson pd resultRecords g entries = Inr validated
               \<and> crossCheckAdsTxtRecords lib (Some pd) entries cached (GetSellersJson g) =
                   Inr (map Variable (variablesOf entries) @ map Record validated)))"
proof -
  let ?r = "records ! i"
  let ?d = "toLowerCase (domain ?r)"
  let ?ids = "map account_id (filter (\<lambda>r. is_valid r \<and> toLowerCase (domain r) = ?d) records)"
  note nth = validateWithOptimizedProvider_nth [OF assms]
  have a: "validateWithOptimizedProvider pd records p es ! i =
             createWarningRecord ?r NO_SELLERS_JSON [(''domain'', Some (domain ?r))] WARNING
               (\<lambda>r. r\<lparr>validation_results := Some createInitialValidationResult\<rparr>)"
    if "provider_hasSellerJson p ?d = Inl ex
         \<or> (provider_hasSellerJson p ?d = Inr True \<and> batchGetSellers p ?d ?ids = Inl ex)"
    using that
    by (auto simp add: nth fetchedSellers_def fetchedMetadata_def
        validateSingleRecordOptimized_def metadataKeys_def emptyMetadata_def present_def Let_def
        createInitialValidationResult_def)
  have b: "validateWithOptimizedProvider pd records p es ! i =
               validateWithOptimizedProvider pd records p' es ! i"
    if "provider_hasSellerJson p ?d = provider_hasSellerJson p' ?d
           \<and> batchGetSellers p ?d ?ids = batchGetSellers p' ?d ?ids"
  proof -
    have "fetchedSellers p ?d ?ids = fetchedSellers p' ?d ?ids"
      and "fetchedMetadata p ?d ?ids = fetchedMetadata p' ?d ?ids"
      using that
      by (auto simp add: fetchedSellers_def fetchedMetadata_def split: sum.splits bool.splits)
    then show ?thesis by (simp add: nth)
  qed
  have c: "validated ! i =
               createWarningRecord ?r SELLERS_JSON_VALIDATION_ERROR
                 [(''message'', msg), (''domain'', Some (domain ?r))] WARNING
                 (\<lambda>r. r\<lparr>validation_error := msg\<rparr>)"
    if "validateAgainstSellersJson pd records g es = Inr validated
           \<and> g ?d = Inl ex \<and> message ex = Inr msg"
    using that validateAgainstSellersJson_nth(2) [of pd records g es validated i] assms
      validateRecordLegacy_caught [of ?r g ex msg pd es]
    by simp
  have d: "validated ! i = validated' ! i"
    if "validateAgainstSellersJson pd records g es = Inr validated
           \<and> validateAgainstSellersJson pd records g' es = Inr validated'
           \<and> g ?d = g' ?d"
    using that validateAgainstSellersJson_nth(2) [of pd records g es validated i]
      validateAgainstSellersJson_nth(2) [of pd records g' es validated' i] assms(1)
      validateRecordLegacy_cong [of g ?r g' pd es]
    by simp
  have e: "validateAgainstSellersJsonOptimized pd records (Provider p) es =
         Inr (validateWithOptimizedProvider pd records p es)"
    by (simp add: validateAgainstSellersJsonOptimized_def)
  have f: "\<exists>validated. validateAgainstSellersJson pd rs g es' = Inr validated"
    if "\<forall>r \<in> set rs. is_valid r \<longrightarrow> g (toLowerCase (domain r)) \<noteq> Inl ThrownNullish"
    for rs es'
  proof (cases "validateAgainstSellersJson pd rs g es'")
    case (Inl ex')
    then show ?thesis
      using that validateAgainstSellersJson_rejects_iff [of pd rs g es'] by blast
  next
    case (Inr v)
    then show ?thesis by blast
  qed
  have f': "\<exists>validated.
               validateAgainstSellersJsonOptimized pd records (GetSellersJson g) es
                 = Inr validated"
    if "\<forall>r \<in> set records. is_valid r \<longrightarrow> g (toLowerCase (domain r)) \<noteq> Inl ThrownNullish"
    using f [OF that, of es] by (simp add: validateAgainstSellersJsonOptimized_def)
  have h: "crossCheckAdsTxtRecords lib (Some pd) entries cached (Provider p) =
              Inr (map Variable (variablesOf entries)
                   @ map Record (validateWithOptimizedProvider pd resultRecords p entries))"
    if "pd \<noteq> [] \<and> checkForDuplicates lib pd (recordsOf entries) cached = Inr resultRecords"
    using that
    by (simp add: crossCheckAdsTxtRecords_def crossCheckBody_def Let_def
        validateAgainstSellersJsonOptimized_def)
  have k: "\<exists>validated.
               validateAgainstSellersJson pd resultRecords g entries = Inr validated
               \<and> crossCheckAdsTxtRecords lib (Some pd) entries cached (GetSellersJson g) =
                   Inr (map Variable (variablesOf entries) @ map Record validated)"
    if prem: "pd \<noteq> [] \<and> checkForDuplicates lib pd (recordsOf entries) cached = Inr resultRecords
          \<and> (\<forall>r \<in> set resultRecords.
                 is_valid r \<longrightarrow> g (toLowerCase (domain r)) \<noteq> Inl ThrownNullish)"
  proof -
    obtain validated where "validateAgainstSellersJson pd resultRecords g entries = Inr validated"
      using prem f [of resultRecords entries] by blast
    then show ?thesis
      using prem
      by (simp add: crossCheckAdsTxtRecords_def crossCheckBody_def Let_def
          validateAgainstSellersJsonOptimized_def)
  qed
  show ?thesis
    unfolding Let_def
  proof (intro conjI impI)
    show "validateAgainstSellersJsonOptimized pd records (Provider p) es =
         Inr (validateWithOptimizedProvider pd records p es)" by (rule e)
  qed (use a b c d f' h k in blast)+
qed

theorem fetch_exception_isolated_witness:
  "(0::nat) < length [testRecord, directRecord] \<and> is_valid ([testRecord, directRecord] ! 0)
   \<and> (1::nat) < length [testRecord, directRecord] \<and> is_valid ([testRecord, directRecord] ! 1)
   \<and> provider_hasSellerJson failingProvider ''openx.com'' = Inl (Exception ''timeout'')
   \<and> validateWithOptimizedProvider ''nikkei.com'' [testRecord, directRecord] failingProvider [] ! 0
       = createWarningRecord testRecord NO_SELLERS_JSON [(''domain'', Some ''openx.com'')] WARNING
           (\<lambda>r. r\<lparr>validation_results := Some createInitialValidationResult\<rparr>)
   \<and> validateWithOptimizedProvider ''nikkei.com'' [testRecord, directRecord] failingProvider [] ! 1
       = validateWithOptimizedProvider ''nikkei.com'' [testRecord, directRecord] workingProvider [] ! 1
   \<and> map_option hasSellerJson
        (validation_results
           (validateWithOptimizedProvider ''nikkei.com'' [testRecord, directRecord]
              workingProvider [] ! 1)) = Some True
   \<and> failingGetSellersJson ''openx.com'' = Inl (Exception ''timeout'')
   \<and> (\<exists>validated validated'.
         validateAgainstSellersJson ''nikkei.com'' [testRecord, directRecord]
           failingGetSellersJson [] = Inr validated
         \<and> validateAgainstSellersJson ''nikkei.com'' [testRecord, directRecord]
             workingGetSellersJson [] = Inr validated'
         \<and> validated ! 0
             = createWarningRecord testRecord SELLERS_JSON_VALIDATION_ERROR
                 [(''message'', Some ''timeout''), (''domain'', Some ''openx.com'')] WARNING
                 (\<lambda>r. r\<lparr>validation_error := Some ''timeout''\<rparr>)
         \<and> validated ! 1 = validated' ! 1
         \<and> map_option hasSellerJson (validation_results (validated' ! 1)) = Some True)
   \<and> checkForDuplicates examplePsl ''nikkei.com''
         (recordsOf [Record testRecord, Record directRecord]) None
       = Inr [testRecord, directRecord]
   \<and> crossCheckAdsTxtRecords examplePsl (Some ''nikkei.com'')
         [Record testRecord, Record directRecord] None (Provider failingProvider)
       = Inr (map Record
                (validateWithOptimizedProvider ''nikkei.com'' [testRecord, directRecord]
                   failingProvider [Record testRecord, Record directRecord]))
   \<and> failingGetSellersJson ''example.com''
       = Inr (Some \<lparr>sellers = Some [confidentialSeller]\<rparr>)
   \<and> (\<exists>validated.
         validateAgainstSellersJson ''nikkei.com'' [testRecord, directRecord]
           failingGetSellersJson [Record testRecord, Record directRecord] = Inr validated
         \<and> crossCheckAdsTxtRecords examplePsl (Some ''nikkei.com'')
             [Record testRecord, Record directRecord] None (GetSellersJson failingGetSellersJson)
           = Inr (map Record validated))"
proof -
  let ?rs = "[testRecord, directRecord]"
  let ?es = "[Record testRecord, Record directRecord]"
  have cd: "checkForDuplicates examplePsl ''nikkei.com'' (recordsOf ?es) None = Inr ?rs"
    by (simp add: checkForDuplicates_def)
  have vs: "variablesOf ?es = []" by simp
  have nn: "\<forall>r \<in> set ?rs.
      is_valid r \<longrightarrow> failingGetSellersJson (toLowerCase (domain r)) \<noteq> Inl ThrownNullish"
    by (simp add: failingGetSellersJson_def)
  have ne: "(''nikkei.com'' :: string) \<noteq> []" by simp
  have e7: "failingGetSellersJson ''example.com''
       = Inr (Some \<lparr>sellers = Some [confidentialSeller]\<rparr>)"
    by code_simp
  have h0: "(0::nat) < length ?rs" by simp
  have v0: "is_valid (?rs ! 0)" by (simp add: testRecord_def validRecord_def)
  have h1: "(1::nat) < length ?rs" by simp
  have v1: "is_valid (?rs ! 1)" by (simp add: directRecord_def validRecord_def)
  have d0: "toLowerCase (domain (?rs ! 0)) = ''openx.com''" by code_simp
  have d1: "toLowerCase (domain (?rs ! 1)) = ''example.com''" by code_simp
  have dom0: "domain testRecord = ''openx.com''" by (simp add: testRecord_def validRecord_def)
  have n0: "?rs ! 0 = testRecord" by simp
  have e2: "provider_hasSellerJson failingProvider ''openx.com'' = Inl (Exception ''timeout'')"
    by code_simp
  have e3: "failingGetSellersJson ''openx.com'' = Inl (Exception ''timeout'')" by code_simp
  have e4: "provider_hasSellerJson failingProvider ''example.com''
              = provider_hasSellerJson workingProvider ''example.com''"
    by code_simp
  have e5: "batchGetSellers failingProvider ''example.com'' ids
              = batchGetSellers workingProvider ''example.com'' ids" for ids
    by (simp add: failingProvider_def workingProvider_def)
  have e6: "failingGetSellersJson ''example.com'' = workingGetSellersJson ''example.com''"
    by code_simp
  have m: "message (Exception ''timeout'') = Inr (Some ''timeout'')" by simp
  obtain validated where va: "validateAgainstSellersJson ''nikkei.com'' ?rs
      failingGetSellersJson [] = Inr validated"
    by (cases "validateAgainstSellersJson ''nikkei.com'' ?rs failingGetSellersJson []")
      (code_simp, blast)
  obtain validated' where vb: "validateAgainstSellersJson ''nikkei.com'' ?rs
      workingGetSellersJson [] = Inr validated'"
    by (cases "validateAgainstSellersJson ''nikkei.com'' ?rs workingGetSellersJson []")
      (code_simp, blast)
  have ev1: "map_option hasSellerJson
        (validation_results
           (validateWithOptimizedProvider ''nikkei.com'' ?rs workingProvider [] ! 1)) = Some True"
    by code_simp
  have ev2: "map_sum id (\<lambda>vs. map_option hasSellerJson (validation_results (vs ! 1)))
      (validateAgainstSellersJson ''nikkei.com'' ?rs workingGetSellersJson []) = Inr (Some True)"
    by code_simp
  note inst0 = fetch_exception_isolated [OF h0 v0, of failingProvider "Exception ''timeout''"
      "''nikkei.com''" "[]" failingProvider failingGetSellersJson validated "Some ''timeout''"
      failingGetSellersJson validated examplePsl ?es None ?rs]
  note inst1 = fetch_exception_isolated [OF h1 v1, of failingProvider "Exception ''timeout''"
      "''nikkei.com''" "[]" workingProvider failingGetSellersJson validated "Some ''timeout''"
      workingGetSellersJson validated']
  have a0: "validateWithOptimizedProvider ''nikkei.com'' ?rs failingProvider [] ! 0
       = createWarningRecord testRecord NO_SELLERS_JSON [(''domain'', Some ''openx.com'')] WARNING
           (\<lambda>r. r\<lparr>validation_results := Some createInitialValidationResult\<rparr>)"
    and c0: "validated ! 0
             = createWarningRecord testRecord SELLERS_JSON_VALIDATION_ERROR
                 [(''message'', Some ''timeout''), (''domain'', Some ''openx.com'')] WARNING
                 (\<lambda>r. r\<lparr>validation_error := Some ''timeout''\<rparr>)"
    using inst0 unfolding Let_def d0 by (simp_all add: e2 e3 va dom0)
  have b1: "validateWithOptimizedProvider ''nikkei.com'' ?rs failingProvider [] ! 1
       = validateWithOptimizedProvider ''nikkei.com'' ?rs workingProvider [] ! 1"
    and d1': "validated ! 1 = validated' ! 1"
    using inst1 unfolding Let_def d1 by (simp_all add: e4 e5 e6 va vb)
  have "map_option hasSellerJson (validation_results (validated' ! 1)) = Some True"
    using ev2 by (simp add: vb)
  then have legacy: "\<exists>validated validated'.
         validateAgainstSellersJson ''nikkei.com'' ?rs failingGetSellersJson [] = Inr validated
         \<and> validateAgainstSellersJson ''nikkei.com'' ?rs workingGetSellersJson [] = Inr validated'
         \<and> validated ! 0
             = createWarningRecord testRecord SELLERS_JSON_VALIDATION_ERROR
                 [(''message'', Some ''timeout''), (''domain'', Some ''openx.com'')] WARNING
                 (\<lambda>r. r\<lparr>validation_error := Some ''timeout''\<rparr>)
         \<and> validated ! 1 = validated' ! 1
         \<and> map_option hasSellerJson (validation_results (validated' ! 1)) = Some True"
    using va vb c0 d1' by blast
  have x1: "crossCheckAdsTxtRecords examplePsl (Some ''nikkei.com'') ?es None
         (Provider failingProvider)
       = Inr (map Record (validateWithOptimizedProvider ''nikkei.com'' ?rs failingProvider ?es))"
    using inst0 ne cd vs by simp
  have x2: "\<exists>validated.
         validateAgainstSellersJson ''nikkei.com'' ?rs failingGetSellersJson ?es = Inr validated
         \<and> crossCheckAdsTxtRecords examplePsl (Some ''nikkei.com'') ?es None
             (GetSellersJson failingGetSellersJson)
           = Inr (map Record validated)"
    using inst0 ne cd nn vs by simp
  show ?thesis
    using h0 v0 h1 v1 e2 e3 a0 b1 ev1 legacy cd x1 e7 x2 by (intro conjI)
qed

text \<open>
  C5 as stated fails on the legacy path: when the fetch function throws, the record is
  not put in the state of a domain without data (the NO_SELLERS_JSON warning with
  \<open>hasSellerJson\<close> false, which a fetch result of null gives); it gets the warning
  SELLERS_JSON_VALIDATION_ERROR and no validation result at all.
\<close>

theorem legacy_fetch_exception_not_empty_result:
  "validateAgainstSellersJson ''nikkei.com'' [testRecord] (\<lambda>d. Inl (Exception ''timeout'')) []
     = Inr [createWarningRecord testRecord SELLERS_JSON_VALIDATION_ERROR
              [(''message'', Some ''timeout''), (''domain'', Some ''openx.com'')] WARNING
              (\<lambda>r. r\<lparr>validation_error := Some ''timeout''\<rparr>)]
   \<and> validation_key
        (createWarningRecord testRecord SELLERS_JSON_VALIDATION_ERROR
           [(''message'', Some ''timeout''), (''domain'', Some ''openx.com'')] WARNING
           (\<lambda>r. r\<lparr>validation_error := Some ''timeout''\<rparr>))
       = Some ''sellersJsonValidationError''
   \<and> validation_results
        (createWarningRecord testRecord SELLERS_JSON_VALIDATION_ERROR
           [(''message'', Some ''timeout''), (''domain'', Some ''openx.com'')] WARNING
           (\<lambda>r. r\<lparr>validation_error := Some ''timeout''\<rparr>))
       = None
   \<and> validateAgainstSellersJson ''nikkei.com'' [testRecord] (\<lambda>d. Inr None) []
     = Inr [createWarningRecord testRecord NO_SELLERS_JSON [(''domain'', Some ''openx.com'')]
              WARNING (\<lambda>r. r\<lparr>validation_results := Some createInitialValidationResult\<rparr>)]
   \<and> validation_key
        (createWarningRecord testRecord NO_SELLERS_JSON [(''domain'', Some ''openx.com'')]
           WARNING (\<lambda>r. r\<lparr>validation_results := Some createInitialValidationResult\<rparr>))
       = Some ''noSellersJson''"
  by code_simp




section \<open>The duplicate detector\<close>





section \<open>The line parser: comments\<close>

lemma isWhitespace_hash: "\<not> isWhitespace (CHR ''#'')"
  by (simp add: isWhitespace_def)

lemma trimEnd_hash: "trimEnd (xs @ CHR ''#'' # c) = xs @ CHR ''#'' # trimEnd c"
proof -
  have "dropWhile isWhitespace (rev c @ CHR ''#'' # rev xs)
        = (if \<forall>x\<in>set (rev c). isWhitespace x then CHR ''#'' # rev xs
           else dropWhile isWhitespace (rev c) @ CHR ''#'' # rev xs)"
    by (simp add: dropWhile_append isWhitespace_hash)
  moreover have "(\<forall>x\<in>set (rev c). isWhitespace x) \<Longrightarrow> dropWhile isWhitespace (rev c) = []"
    by simp
  ultimately show ?thesis
    by (auto simp add: trimEnd_def)
qed

lemma trimStart_hash:
  "trimStart (pre @ CHR ''#'' # c) =
     (if list_all isWhitespace pre then CHR ''#'' # c else trimStart pre @ CHR ''#'' # c)"
  by (auto simp add: trimStart_def dropWhile_append isWhitespace_hash list_all_iff)

lemma trimStart_empty: "list_all isWhitespace pre \<longleftrightarrow> trimStart pre = []"
  by (auto simp add: trimStart_def list_all_iff dropWhile_eq_Nil_conv)

lemma trim_empty_iff: "trim pre = [] \<longleftrightarrow> list_all isWhitespace pre"
proof -
  have "trimEnd xs = [] \<longleftrightarrow> list_all isWhitespace xs" for xs
    by (auto simp add: trimEnd_def list_all_iff dropWhile_eq_Nil_conv)
  moreover have "list_all isWhitespace (dropWhile isWhitespace pre) \<longleftrightarrow> list_all isWhitespace pre"
    by (induction pre) auto
  ultimately show ?thesis by (simp add: trim_def trimStart_def)
qed

lemma trim_trimStart: "trim (trimStart pre) = trim pre"
  by (simp add: trim_def trimStart_def dropWhile_idem)

lemma set_trimStart: "set (trimStart pre) \<subseteq> set pre"
  by (simp add: trimStart_def set_dropWhileD subsetI)

lemma stripComment_hash:
  assumes "CHR ''#'' \<notin> set pre" and "\<not> list_all isWhitespace pre"
  shows "trim (pre @ CHR ''#'' # c) = trimStart pre @ CHR ''#'' # trimEnd c"
    and "stripComment (trim (pre @ CHR ''#'' # c)) = trim pre"
proof -
  show t: "trim (pre @ CHR ''#'' # c) = trimStart pre @ CHR ''#'' # trimEnd c"
    using assms(2) by (simp add: trim_def trimStart_hash trimEnd_hash)
  have "\<forall>x \<in> set (trimStart pre). x \<noteq> CHR ''#''"
    using assms(1) set_trimStart by blast
  then have "takeWhile (\<lambda>c. c \<noteq> CHR ''#'') (trimStart pre @ CHR ''#'' # trimEnd c) = trimStart pre"
    by (simp add: takeWhile_append2)
  then show "stripComment (trim (pre @ CHR ''#'' # c)) = trim pre"
    by (simp add: t stripComment_def trim_trimStart)
qed

lemma startsWith_hash: "startsWith s ''#'' \<longleftrightarrow> (\<exists>t. s = CHR ''#'' # t)"
  by (cases s) (auto simp add: startsWith_def)

text \<open>
  C9, as the code has it. Every line that contains an invalid control character
  yields an invalid-characters entry, also when it starts with \<open>#\<close>. For every other
  line: a line whose trimmed text starts with \<open>#\<close> yields no entry; a line that is
  empty after comment stripping yields no entry; and for a line that is not recognised
  as a variable, the text from the first \<open>#\<close> on is stripped before the fields are
  read: the entry is the one the record parser computes from the trimmed text before
  the \<open>#\<close>, and none when that text is blank.
\<close>

theorem comment_stripped_before_record_fields:
  "(hasInvalidCharacters line \<longrightarrow>
      parseAdsTxtLine lib line n =
        Inr (Some (Record (createInvalidRecord
                             (emptyPartial\<lparr>p_line_number := Some n, p_raw_line := Some line\<rparr>)
                             INVALID_CHARACTERS ERROR))))
   \<and> (\<not> hasInvalidCharacters line \<longrightarrow>
        (startsWith (trim line) ''#'' \<longrightarrow> parseAdsTxtLine lib line n = Inr None)
        \<and> (stripComment (trim line) = [] \<longrightarrow> parseAdsTxtLine lib line n = Inr None)
        \<and> (line = pre @ CHR ''#'' # comment \<and> CHR ''#'' \<notin> set pre
             \<and> parseAdsTxtVariable line n = None
           \<longrightarrow> parseAdsTxtLine lib line n =
                 (if trim pre = [] then Inr None
                  else (case parseRecordFields lib (trim pre) line n of
                          Inl ex \<Rightarrow> Inl ex
                        | Inr r \<Rightarrow> Inr (Some (Record r))))))"
proof (intro conjI impI)
  show "parseAdsTxtLine lib line n =
        Inr (Some (Record (createInvalidRecord
                             (emptyPartial\<lparr>p_line_number := Some n, p_raw_line := Some line\<rparr>)
                             INVALID_CHARACTERS ERROR)))"
    if "hasInvalidCharacters line"
    using that by (simp add: parseAdsTxtLine_def)
  show "parseAdsTxtLine lib line n = Inr None"
    if "\<not> hasInvalidCharacters line" "startsWith (trim line) ''#''"
    using that by (simp add: parseAdsTxtLine_def Let_def)
  show "parseAdsTxtLine lib line n = Inr None"
    if "\<not> hasInvalidCharacters line" "stripComment (trim line) = []"
    using that by (simp add: parseAdsTxtLine_def Let_def)
  show "parseAdsTxtLine lib line n =
            (if trim pre = [] then Inr None
             else (case parseRecordFields lib (trim pre) line n of
                     Inl ex \<Rightarrow> Inl ex
                   | Inr r \<Rightarrow> Inr (Some (Record r))))"
    if valid: "\<not> hasInvalidCharacters line"
      and h: "line = pre @ CHR ''#'' # comment \<and> CHR ''#'' \<notin> set pre
        \<and> parseAdsTxtVariable line n = None"
  proof (cases "list_all isWhitespace pre")
    case True
    then have "trim line = CHR ''#'' # trimEnd comment"
      using h by (simp add: trim_def trimStart_hash trimEnd_hash [of "[]", simplified])
    then show ?thesis
      using valid True by (simp add: parseAdsTxtLine_def Let_def startsWith_hash trim_empty_iff)
  next
    case False
    then have t: "trim line = trimStart pre @ CHR ''#'' # trimEnd comment"
      and s: "stripComment (trim line) = trim pre"
      using h stripComment_hash [of pre comment] by simp_all
    have ne: "trimStart pre \<noteq> []" using False by (simp add: trimStart_empty)
    then obtain x xs where x: "trimStart pre = x # xs" by (cases "trimStart pre") auto
    then have "x \<in> set pre" using set_trimStart [of pre] by auto
    then have "x \<noteq> CHR ''#''" using h by auto
    then have ns: "\<not> startsWith (trim line) ''#''"
      by (simp add: t x startsWith_hash)
    have "trim line \<noteq> []" by (simp add: t)
    moreover have "trim pre \<noteq> []" using False by (simp add: trim_empty_iff)
    moreover have "parseAdsTxtVariable line n = None" using h by blast
    ultimately show ?thesis
      using valid ns s by (simp add: parseAdsTxtLine_def Let_def)
  qed
qed

theorem comment_stripped_before_record_fields_witness:
  "\<not> hasInvalidCharacters ''improvedigital.com, 1863, RESELLER # Premium video demand from Outbrain''
   \<and> CHR ''#'' \<notin> set ''improvedigital.com, 1863, RESELLER ''
   \<and> parseAdsTxtVariable
        ''improvedigital.com, 1863, RESELLER # Premium video demand from Outbrain'' 6 = None
   \<and> parseAdsTxtLine examplePsl
        ''improvedigital.com, 1863, RESELLER # Premium video demand from Outbrain'' 6
      = Inr (Some (Record (validRecord ''improvedigital.com'' ''1863'' ''RESELLER'' None RESELLER 6
          ''improvedigital.com, 1863, RESELLER # Premium video demand from Outbrain'')))
   \<and> hasInvalidCharacters (''google.com, pub-1, DIRECT'' @ [CHR 0x7F])
   \<and> map_sum id (map_option (case_ParsedAdsTxtEntry
                                (\<lambda>r. (is_valid r, error r, raw_line r)) (\<lambda>v. (True, None, []))))
        (parseAdsTxtLine examplePsl (''google.com, pub-1, DIRECT'' @ [CHR 0x7F]) 7)
      = Inr (Some (False, Some ''invalidCharacters'', ''google.com, pub-1, DIRECT'' @ [CHR 0x7F]))"
proof -
  have h1: "\<not> hasInvalidCharacters
      ''improvedigital.com, 1863, RESELLER # Premium video demand from Outbrain''"
    by code_simp
  have h2: "CHR ''#'' \<notin> set ''improvedigital.com, 1863, RESELLER ''" by simp
  have h3: "parseAdsTxtVariable
        ''improvedigital.com, 1863, RESELLER # Premium video demand from Outbrain'' 6 = None"
    by code_simp
  have e1: "trim ''improvedigital.com, 1863, RESELLER '' = ''improvedigital.com, 1863, RESELLER''"
    by code_simp
  have e2: "parseRecordFields examplePsl ''improvedigital.com, 1863, RESELLER''
      ''improvedigital.com, 1863, RESELLER # Premium video demand from Outbrain'' 6
    = Inr (validRecord ''improvedigital.com'' ''1863'' ''RESELLER'' None RESELLER 6
          ''improvedigital.com, 1863, RESELLER # Premium video demand from Outbrain'')"
    by code_simp
  have h4: "hasInvalidCharacters (''google.com, pub-1, DIRECT'' @ [CHR 0x7F])" by code_simp
  have e3: "(case Record (createInvalidRecord
                (emptyPartial\<lparr>p_line_number := Some 7,
                   p_raw_line := Some (''google.com, pub-1, DIRECT'' @ [CHR 0x7F])\<rparr>)
                INVALID_CHARACTERS ERROR) of
              Record r \<Rightarrow> (is_valid r, error r, raw_line r)
            | Variable v \<Rightarrow> (True, None, []))
      = (False, Some ''invalidCharacters'', ''google.com, pub-1, DIRECT'' @ [CHR 0x7F])"
    by code_simp
  note inst1 = comment_stripped_before_record_fields
      [of "''improvedigital.com, 1863, RESELLER # Premium video demand from Outbrain''"
        examplePsl 6 "''improvedigital.com, 1863, RESELLER ''"
        "'' Premium video demand from Outbrain''"]
  note inst2 = comment_stripped_before_record_fields
      [of "''google.com, pub-1, DIRECT'' @ [CHR 0x7F]" examplePsl 7 "[]" "[]"]
  have a: "parseAdsTxtLine examplePsl
        ''improvedigital.com, 1863, RESELLER # Premium video demand from Outbrain'' 6
      = Inr (Some (Record (validRecord ''improvedigital.com'' ''1863'' ''RESELLER'' None RESELLER 6
          ''improvedigital.com, 1863, RESELLER # Premium video demand from Outbrain'')))"
    using inst1 h1 h2 h3 by (simp add: e1 e2)
  have b: "parseAdsTxtLine examplePsl (''google.com, pub-1, DIRECT'' @ [CHR 0x7F]) 7
      = Inr (Some (Record (createInvalidRecord
                (emptyPartial\<lparr>p_line_number := Some 7,
                   p_raw_line := Some (''google.com, pub-1, DIRECT'' @ [CHR 0x7F])\<rparr>)
                INVALID_CHARACTERS ERROR)))"
    using inst2 h4 by blast
  have c: "map_sum id (map_option (case_ParsedAdsTxtEntry
                                (\<lambda>r. (is_valid r, error r, raw_line r)) (\<lambda>v. (True, None, []))))
        (parseAdsTxtLine examplePsl (''google.com, pub-1, DIRECT'' @ [CHR 0x7F]) 7)
      = Inr (Some (False, Some ''invalidCharacters'', ''google.com, pub-1, DIRECT'' @ [CHR 0x7F]))"
    unfolding b using e3 by simp
  show ?thesis using h1 h2 h3 a h4 c by blast
qed


text \<open>
  C9 as stated fails in two places: a line that starts with \<open>#\<close> and contains a control
  character yields an invalid-characters entry, because that check comes first; and
  the variable is recognised in the line as it was given, so an inline comment stays
  part of the variable's value.
\<close>

theorem comment_not_stripped_examples:
  "parseAdsTxtLine examplePsl [CHR ''#'', CHR 0x01] 1 =
     Inr (Some (Record (createInvalidRecord
                          (emptyPartial\<lparr>p_line_number := Some 1,
                                         p_raw_line := Some [CHR ''#'', CHR 0x01]\<rparr>)
                          INVALID_CHARACTERS ERROR)))
   \<and> parseAdsTxtLine examplePsl ''OWNERDOMAIN=example.com # owner'' 2 =
     Inr (Some (Variable \<lparr>variable_type = ''OWNERDOMAIN'',
                           var_value = ''example.com # owner'',
                           var_line_number = 2,
                           var_raw_line = ''OWNERDOMAIN=example.com # owner'',
                           var_is_variable = True, var_is_valid = True\<rparr>))"
  by code_simp

section \<open>Splitting, joining and trimming\<close>








lemma trimStart_Cons: "\<not> isWhitespace x \<Longrightarrow> trimStart (x # s) = x # s"
  by (simp add: trimStart_def)









section \<open>Re-parsing a variable line\<close>











section \<open>Re-parsing a record line\<close>













section \<open>The entries the optimizer collects\<close>













section \<open>The lines the optimizer prints\<close>









section \<open>The optimizer prints valid entries\<close>





end
